theory Spec2Isabelle
  imports Complex_Main
begin

section \<open>Blue carbon registry: the two contracts and the REST layer\<close>

text \<open>
  The repository holds the same registry three times: the simplified contract
  (\<^verbatim>\<open>src/unnamed/part_000\<close>, names prefixed \<open>s_\<close> here), the full contract
  (\<^verbatim>\<open>src/contracts/BlueCarbon Registry.sol\<close>, source names) and the Express routes
  (\<^verbatim>\<open>src/routes/api.js\<close> with \<^verbatim>\<open>src/middleware/validation.js\<close>, types prefixed
  \<open>r_\<close>, handlers named after their routes). A Solidity \<open>uint256\<close> is a \<open>nat\<close>; arithmetic is the checked
  arithmetic of Solidity 0.8, which reverts with a panic instead of wrapping. An
  \<open>address\<close> is a \<open>nat\<close>, \<open>address(0)\<close> is \<open>0\<close>. A call takes the state,
  \<open>msg.sender\<close> and \<open>block.timestamp\<close> and returns the new state or the error it
  reverts with; a reverted call leaves the storage as it was.
\<close>

subsection \<open>Solidity preliminaries\<close>

type_synonym address = nat

definition UINT_MAX :: nat where
  "UINT_MAX = 2 ^ 256 - 1"

definition checked_add :: "nat \<Rightarrow> nat \<Rightarrow> nat option" where
  "checked_add a b = (if a + b \<le> UINT_MAX then Some (a + b) else None)"

definition checked_sub :: "nat \<Rightarrow> nat \<Rightarrow> nat option" where
  "checked_sub a b = (if b \<le> a then Some (a - b) else None)"

definition checked_mul :: "nat \<Rightarrow> nat \<Rightarrow> nat option" where
  "checked_mul a b = (if a * b \<le> UINT_MAX then Some (a * b) else None)"

datatype role =
  DEFAULT_ADMIN_ROLE | ADMIN_ROLE | VERIFIER_ROLE | DATA_COLLECTOR_ROLE | STAKEHOLDER_ROLE

text \<open>
  \<open>Revert\<close> carries the message of a failed \<open>require\<close>, \<open>Panic\<close> is an arithmetic
  overflow or underflow, \<open>MissingRole\<close> is what \<open>onlyRole\<close> reverts with.
\<close>

datatype error = Revert string | Panic | MissingRole address role

subsection \<open>The simplified contract: data\<close>

datatype s_ProjectStatus = S_Pending | S_Active | S_Verified | S_Suspended

datatype s_EcosystemType = S_Mangrove | S_Seagrass | S_SaltMarsh | S_TidalMarsh

datatype s_StakeholderType = S_NGO | S_Community | S_Panchayat | S_Researcher | S_Government

record s_Project =
  sp_id :: nat
  sp_name :: string
  sp_location :: string
  sp_area :: nat
  sp_ecosystemType :: s_EcosystemType
  sp_owner :: address
  sp_status :: s_ProjectStatus
  sp_createdAt :: nat
  sp_verifiedAt :: nat
  sp_documentHashes :: "string list"
  sp_estimatedCredits :: nat
  sp_actualCredits :: nat

record s_Stakeholder =
  ss_stakeholderAddress :: address
  ss_name :: string
  ss_organization :: string
  ss_stakeholderType :: s_StakeholderType
  ss_location :: string
  ss_approved :: bool
  ss_registeredAt :: nat
  ss_projectIds :: "nat list"

record s_MRVData =
  sm_projectId :: nat
  sm_collector :: address
  sm_timestamp :: nat
  sm_dataHash :: string
  sm_coordinates :: string
  sm_carbonSequestration :: nat
  sm_verified :: bool
  sm_verifier :: address
  sm_verifiedAt :: nat

record s_Registry =
  s_roles :: "role \<Rightarrow> address \<Rightarrow> bool"
  s_paused :: bool
  s_projects :: "nat \<Rightarrow> s_Project"
  s_stakeholders :: "address \<Rightarrow> s_Stakeholder"
  s_projectMRVData :: "nat \<Rightarrow> s_MRVData list"
  s_mrvDataById :: "nat \<Rightarrow> s_MRVData"
  s_nextProjectId :: nat
  s_nextMRVDataId :: nat
  s_totalProjects :: nat
  s_totalVerifiedProjects :: nat
  s_totalCarbonSequestered :: nat

text \<open>Storage that was never written reads as the zero value of its type.\<close>

definition s_zeroProject :: s_Project where
  "s_zeroProject = \<lparr>sp_id = 0, sp_name = [], sp_location = [], sp_area = 0,
     sp_ecosystemType = S_Mangrove, sp_owner = 0, sp_status = S_Pending, sp_createdAt = 0,
     sp_verifiedAt = 0, sp_documentHashes = [], sp_estimatedCredits = 0, sp_actualCredits = 0\<rparr>"

definition s_zeroStakeholder :: s_Stakeholder where
  "s_zeroStakeholder = \<lparr>ss_stakeholderAddress = 0, ss_name = [], ss_organization = [],
     ss_stakeholderType = S_NGO, ss_location = [], ss_approved = False, ss_registeredAt = 0,
     ss_projectIds = []\<rparr>"

definition s_zeroMRVData :: s_MRVData where
  "s_zeroMRVData = \<lparr>sm_projectId = 0, sm_collector = 0, sm_timestamp = 0, sm_dataHash = [],
     sm_coordinates = [], sm_carbonSequestration = 0, sm_verified = False, sm_verifier = 0,
     sm_verifiedAt = 0\<rparr>"

definition s_constructor :: "address \<Rightarrow> s_Registry" where
  "s_constructor sender = \<lparr>
     s_roles = (\<lambda>r a. a = sender \<and> (r = DEFAULT_ADMIN_ROLE \<or> r = ADMIN_ROLE \<or> r = VERIFIER_ROLE)),
     s_paused = False,
     s_projects = (\<lambda>_. s_zeroProject),
     s_stakeholders = (\<lambda>_. s_zeroStakeholder),
     s_projectMRVData = (\<lambda>_. []),
     s_mrvDataById = (\<lambda>_. s_zeroMRVData),
     s_nextProjectId = 1,
     s_nextMRVDataId = 1,
     s_totalProjects = 0,
     s_totalVerifiedProjects = 0,
     s_totalCarbonSequestered = 0\<rparr>"

subsection \<open>The simplified contract: functions\<close>

definition s_registerProject ::
  "s_Registry \<Rightarrow> address \<Rightarrow> nat \<Rightarrow> string \<Rightarrow> string \<Rightarrow> nat \<Rightarrow> s_EcosystemType \<Rightarrow> string list \<Rightarrow> nat
     \<Rightarrow> error + s_Registry" where
  "s_registerProject s sender now name location area ecosystemType documentHashes estimatedCredits =
    (if s_paused s then Inl (Revert ''Pausable: paused'')
     else if \<not> length name > 0 then Inl (Revert ''Project name required'')
     else if \<not> length location > 0 then Inl (Revert ''Project location required'')
     else if \<not> area > 0 then Inl (Revert ''Project area must be greater than zero'')
     else if \<not> ss_approved (s_stakeholders s sender) then Inl (Revert ''Stakeholder not approved'')
     else
       let projectId = s_nextProjectId s;
           project = \<lparr>sp_id = projectId, sp_name = name, sp_location = location, sp_area = area,
             sp_ecosystemType = ecosystemType, sp_owner = sender, sp_status = S_Pending,
             sp_createdAt = now, sp_verifiedAt = 0, sp_documentHashes = documentHashes,
             sp_estimatedCredits = estimatedCredits, sp_actualCredits = 0\<rparr>;
           owner = s_stakeholders s sender
       in (case checked_add (s_totalProjects s) 1 of
             None \<Rightarrow> Inl Panic
           | Some newTotal \<Rightarrow>
               (case checked_add (s_nextProjectId s) 1 of
                  None \<Rightarrow> Inl Panic
                | Some newNext \<Rightarrow>
                    Inr (s\<lparr>s_projects := (s_projects s)(projectId := project),
                           s_stakeholders := (s_stakeholders s)
                             (sender := owner\<lparr>ss_projectIds := ss_projectIds owner @ [projectId]\<rparr>),
                           s_totalProjects := newTotal,
                           s_nextProjectId := newNext\<rparr>))))"

definition s_registerStakeholder ::
  "s_Registry \<Rightarrow> address \<Rightarrow> nat \<Rightarrow> string \<Rightarrow> string \<Rightarrow> s_StakeholderType \<Rightarrow> string
     \<Rightarrow> error + s_Registry" where
  "s_registerStakeholder s sender now name organization stakeholderType location =
    (if s_paused s then Inl (Revert ''Pausable: paused'')
     else if \<not> ss_stakeholderAddress (s_stakeholders s sender) = 0
       then Inl (Revert ''Stakeholder already registered'')
     else if \<not> length name > 0 then Inl (Revert ''Name required'')
     else if \<not> length organization > 0 then Inl (Revert ''Organization required'')
     else Inr (s\<lparr>s_stakeholders := (s_stakeholders s)(sender :=
       \<lparr>ss_stakeholderAddress = sender, ss_name = name, ss_organization = organization,
        ss_stakeholderType = stakeholderType, ss_location = location, ss_approved = False,
        ss_registeredAt = now, ss_projectIds = []\<rparr>)\<rparr>))"

definition s_approveStakeholder :: "s_Registry \<Rightarrow> address \<Rightarrow> address \<Rightarrow> error + s_Registry" where
  "s_approveStakeholder s sender stakeholder =
    (if \<not> s_roles s ADMIN_ROLE sender then Inl (MissingRole sender ADMIN_ROLE)
     else if \<not> ss_stakeholderAddress (s_stakeholders s stakeholder) \<noteq> 0
       then Inl (Revert ''Stakeholder not registered'')
     else if \<not> \<not> ss_approved (s_stakeholders s stakeholder)
       then Inl (Revert ''Stakeholder already approved'')
     else Inr (s\<lparr>s_stakeholders := (s_stakeholders s)
                   (stakeholder := (s_stakeholders s stakeholder)\<lparr>ss_approved := True\<rparr>),
                 s_roles := (s_roles s)
                   (DATA_COLLECTOR_ROLE := (s_roles s DATA_COLLECTOR_ROLE)(stakeholder := True))\<rparr>))"

definition s_submitMRVData ::
  "s_Registry \<Rightarrow> address \<Rightarrow> nat \<Rightarrow> nat \<Rightarrow> string \<Rightarrow> string \<Rightarrow> nat \<Rightarrow> error + s_Registry" where
  "s_submitMRVData s sender now projectId dataHash coordinates carbonSequestration =
    (if \<not> s_roles s DATA_COLLECTOR_ROLE sender then Inl (MissingRole sender DATA_COLLECTOR_ROLE)
     else if s_paused s then Inl (Revert ''Pausable: paused'')
     else if \<not> sp_id (s_projects s projectId) \<noteq> 0 then Inl (Revert ''Project does not exist'')
     else if \<not> sp_status (s_projects s projectId) = S_Active then Inl (Revert ''Project not active'')
     else if \<not> length dataHash > 0 then Inl (Revert ''Data hash required'')
     else if \<not> carbonSequestration > 0
       then Inl (Revert ''Carbon sequestration must be greater than zero'')
     else
       let dataId = s_nextMRVDataId s;
           newData = \<lparr>sm_projectId = projectId, sm_collector = sender, sm_timestamp = now,
             sm_dataHash = dataHash, sm_coordinates = coordinates,
             sm_carbonSequestration = carbonSequestration, sm_verified = False, sm_verifier = 0,
             sm_verifiedAt = 0\<rparr>
       in (case checked_add (s_nextMRVDataId s) 1 of
             None \<Rightarrow> Inl Panic
           | Some newNext \<Rightarrow>
               Inr (s\<lparr>s_projectMRVData := (s_projectMRVData s)
                        (projectId := s_projectMRVData s projectId @ [newData]),
                      s_mrvDataById := (s_mrvDataById s)(dataId := newData),
                      s_nextMRVDataId := newNext\<rparr>)))"

definition s_verifyMRVData :: "s_Registry \<Rightarrow> address \<Rightarrow> nat \<Rightarrow> nat \<Rightarrow> error + s_Registry" where
  "s_verifyMRVData s sender now dataId =
    (if \<not> s_roles s VERIFIER_ROLE sender then Inl (MissingRole sender VERIFIER_ROLE)
     else if \<not> sm_timestamp (s_mrvDataById s dataId) \<noteq> 0 then Inl (Revert ''MRV data does not exist'')
     else if \<not> \<not> sm_verified (s_mrvDataById s dataId) then Inl (Revert ''Data already verified'')
     else
       let data = (s_mrvDataById s dataId)\<lparr>sm_verified := True, sm_verifier := sender,
                    sm_verifiedAt := now\<rparr>;
           projectId = sm_projectId data;
           project = s_projects s projectId
       in (case checked_add (sp_actualCredits project) (sm_carbonSequestration data) of
             None \<Rightarrow> Inl Panic
           | Some credits \<Rightarrow>
               (case checked_add (s_totalCarbonSequestered s) (sm_carbonSequestration data) of
                  None \<Rightarrow> Inl Panic
                | Some newTotal \<Rightarrow>
                    Inr (s\<lparr>s_mrvDataById := (s_mrvDataById s)(dataId := data),
                           s_projects := (s_projects s)
                             (projectId := project\<lparr>sp_actualCredits := credits\<rparr>),
                           s_totalCarbonSequestered := newTotal\<rparr>))))"

text \<open>
  \<open>verifyProject\<close> writes the new status first and tests it afterwards, as the source
  does: the test reads the status it has just stored.
\<close>

definition s_verifyProject :: "s_Registry \<Rightarrow> address \<Rightarrow> nat \<Rightarrow> nat \<Rightarrow> error + s_Registry" where
  "s_verifyProject s sender now projectId =
    (if \<not> s_roles s VERIFIER_ROLE sender then Inl (MissingRole sender VERIFIER_ROLE)
     else if \<not> sp_id (s_projects s projectId) \<noteq> 0 then Inl (Revert ''Project does not exist'')
     else if \<not> (sp_status (s_projects s projectId) = S_Pending
                \<or> sp_status (s_projects s projectId) = S_Active)
       then Inl (Revert ''Invalid project status'')
     else
       let s1 = s\<lparr>s_projects := (s_projects s)(projectId :=
                  (s_projects s projectId)\<lparr>sp_status := S_Verified, sp_verifiedAt := now\<rparr>)\<rparr>
       in if sp_status (s_projects s1 projectId) \<noteq> S_Verified
          then (case checked_add (s_totalVerifiedProjects s1) 1 of
                  None \<Rightarrow> Inl Panic
                | Some newTotal \<Rightarrow> Inr (s1\<lparr>s_totalVerifiedProjects := newTotal\<rparr>))
          else Inr s1)"

definition s_changeProjectStatus ::
  "s_Registry \<Rightarrow> address \<Rightarrow> nat \<Rightarrow> nat \<Rightarrow> s_ProjectStatus \<Rightarrow> error + s_Registry" where
  "s_changeProjectStatus s sender now projectId newStatus =
    (if \<not> s_roles s ADMIN_ROLE sender then Inl (MissingRole sender ADMIN_ROLE)
     else if \<not> sp_id (s_projects s projectId) \<noteq> 0 then Inl (Revert ''Project does not exist'')
     else if \<not> sp_status (s_projects s projectId) \<noteq> newStatus then Inl (Revert ''Status unchanged'')
     else
       let oldStatus = sp_status (s_projects s projectId);
           s1 = s\<lparr>s_projects := (s_projects s)(projectId :=
                  (s_projects s projectId)\<lparr>sp_status := newStatus\<rparr>)\<rparr>
       in if oldStatus = S_Verified \<and> newStatus \<noteq> S_Verified
          then (case checked_sub (s_totalVerifiedProjects s1) 1 of
                  None \<Rightarrow> Inl Panic
                | Some newTotal \<Rightarrow> Inr (s1\<lparr>s_totalVerifiedProjects := newTotal\<rparr>))
          else if oldStatus \<noteq> S_Verified \<and> newStatus = S_Verified
          then (case checked_add (s_totalVerifiedProjects s1) 1 of
                  None \<Rightarrow> Inl Panic
                | Some newTotal \<Rightarrow>
                    Inr (s1\<lparr>s_totalVerifiedProjects := newTotal,
                            s_projects := (s_projects s1)(projectId :=
                              (s_projects s1 projectId)\<lparr>sp_verifiedAt := now\<rparr>)\<rparr>))
          else Inr s1)"

definition s_getProjectMRVData :: "s_Registry \<Rightarrow> nat \<Rightarrow> s_MRVData list" where
  "s_getProjectMRVData s projectId = s_projectMRVData s projectId"

text \<open>
  \<open>getRegistryStatistics\<close> returns the stored counters and a stakeholder count that
  the source leaves at zero.
\<close>

definition s_getRegistryStatistics :: "s_Registry \<Rightarrow> nat \<times> nat \<times> nat \<times> nat" where
  "s_getRegistryStatistics s =
    (s_totalProjects s, s_totalVerifiedProjects s, s_totalCarbonSequestered s, 0)"

definition s_pause :: "s_Registry \<Rightarrow> address \<Rightarrow> error + s_Registry" where
  "s_pause s sender =
    (if \<not> s_roles s ADMIN_ROLE sender then Inl (MissingRole sender ADMIN_ROLE)
     else if s_paused s then Inl (Revert ''Pausable: paused'')
     else Inr (s\<lparr>s_paused := True\<rparr>))"

definition s_unpause :: "s_Registry \<Rightarrow> address \<Rightarrow> error + s_Registry" where
  "s_unpause s sender =
    (if \<not> s_roles s ADMIN_ROLE sender then Inl (MissingRole sender ADMIN_ROLE)
     else if \<not> s_paused s then Inl (Revert ''Pausable: not paused'')
     else Inr (s\<lparr>s_paused := False\<rparr>))"

definition s_grantVerifierRole :: "s_Registry \<Rightarrow> address \<Rightarrow> address \<Rightarrow> error + s_Registry" where
  "s_grantVerifierRole s sender account =
    (if \<not> s_roles s ADMIN_ROLE sender then Inl (MissingRole sender ADMIN_ROLE)
     else Inr (s\<lparr>s_roles := (s_roles s)(VERIFIER_ROLE := (s_roles s VERIFIER_ROLE)(account := True))\<rparr>))"

definition s_revokeVerifierRole :: "s_Registry \<Rightarrow> address \<Rightarrow> address \<Rightarrow> error + s_Registry" where
  "s_revokeVerifierRole s sender account =
    (if \<not> s_roles s ADMIN_ROLE sender then Inl (MissingRole sender ADMIN_ROLE)
     else Inr (s\<lparr>s_roles := (s_roles s)(VERIFIER_ROLE := (s_roles s VERIFIER_ROLE)(account := False))\<rparr>))"

text \<open>
  Modelled from the spec: AccessControl is imported and not part of the repository. The
  role functions the contract inherits from it are callable too; a role is granted and
  revoked by a holder of the default admin role and renounced by its holder (the spec's
  "role-gated setters").
\<close>

definition s_grantRole :: "s_Registry \<Rightarrow> address \<Rightarrow> role \<Rightarrow> address \<Rightarrow> error + s_Registry" where
  "s_grantRole s sender r account =
    (if \<not> s_roles s DEFAULT_ADMIN_ROLE sender then Inl (MissingRole sender DEFAULT_ADMIN_ROLE)
     else Inr (s\<lparr>s_roles := (s_roles s)(r := (s_roles s r)(account := True))\<rparr>))"

definition s_revokeRole :: "s_Registry \<Rightarrow> address \<Rightarrow> role \<Rightarrow> address \<Rightarrow> error + s_Registry" where
  "s_revokeRole s sender r account =
    (if \<not> s_roles s DEFAULT_ADMIN_ROLE sender then Inl (MissingRole sender DEFAULT_ADMIN_ROLE)
     else Inr (s\<lparr>s_roles := (s_roles s)(r := (s_roles s r)(account := False))\<rparr>))"

definition s_renounceRole :: "s_Registry \<Rightarrow> address \<Rightarrow> role \<Rightarrow> address \<Rightarrow> error + s_Registry" where
  "s_renounceRole s sender r account =
    (if \<not> account = sender then Inl (Revert ''AccessControl: can only renounce roles for self'')
     else Inr (s\<lparr>s_roles := (s_roles s)(r := (s_roles s r)(account := False))\<rparr>))"

subsection \<open>The simplified contract: transactions\<close>

text \<open>
  A call is one of the state-changing external functions. The view functions read the
  storage and write nothing, and the events are not part of the storage, so neither is a
  constructor of the call type.
\<close>

datatype s_call =
  S_registerProject string string nat s_EcosystemType "string list" nat
| S_registerStakeholder string string s_StakeholderType string
| S_approveStakeholder address
| S_submitMRVData nat string string nat
| S_verifyMRVData nat
| S_verifyProject nat
| S_changeProjectStatus nat s_ProjectStatus
| S_pause
| S_unpause
| S_grantVerifierRole address
| S_revokeVerifierRole address
| S_grantRole role address
| S_revokeRole role address
| S_renounceRole role address

fun s_exec :: "s_Registry \<Rightarrow> address \<Rightarrow> nat \<Rightarrow> s_call \<Rightarrow> error + s_Registry" where
  "s_exec s sender now (S_registerProject name location area eco docs est) =
     s_registerProject s sender now name location area eco docs est"
| "s_exec s sender now (S_registerStakeholder name org ty location) =
     s_registerStakeholder s sender now name org ty location"
| "s_exec s sender now (S_approveStakeholder a) = s_approveStakeholder s sender a"
| "s_exec s sender now (S_submitMRVData projectId dataHash coordinates cs) =
     s_submitMRVData s sender now projectId dataHash coordinates cs"
| "s_exec s sender now (S_verifyMRVData dataId) = s_verifyMRVData s sender now dataId"
| "s_exec s sender now (S_verifyProject projectId) = s_verifyProject s sender now projectId"
| "s_exec s sender now (S_changeProjectStatus projectId st) =
     s_changeProjectStatus s sender now projectId st"
| "s_exec s sender now S_pause = s_pause s sender"
| "s_exec s sender now S_unpause = s_unpause s sender"
| "s_exec s sender now (S_grantVerifierRole a) = s_grantVerifierRole s sender a"
| "s_exec s sender now (S_revokeVerifierRole a) = s_revokeVerifierRole s sender a"
| "s_exec s sender now (S_grantRole r a) = s_grantRole s sender r a"
| "s_exec s sender now (S_revokeRole r a) = s_revokeRole s sender r a"
| "s_exec s sender now (S_renounceRole r a) = s_renounceRole s sender r a"

text \<open>A transaction that reverts changes nothing; a run is a list of transactions.\<close>

definition s_transact :: "s_Registry \<Rightarrow> address \<times> nat \<times> s_call \<Rightarrow> s_Registry" where
  "s_transact s tx = (case tx of (sender, now, c) \<Rightarrow>
     (case s_exec s sender now c of Inl e \<Rightarrow> s | Inr s' \<Rightarrow> s'))"

definition s_run :: "s_Registry \<Rightarrow> (address \<times> nat \<times> s_call) list \<Rightarrow> s_Registry" where
  "s_run s txs = foldl s_transact s txs"

inductive s_reachable :: "s_Registry \<Rightarrow> bool" where
  s_init: "s_reachable (s_constructor deployer)"
| s_step: "s_reachable s \<Longrightarrow> s_exec s sender now c = Inr s' \<Longrightarrow> s_reachable s'"

text \<open>The project records are those with ids \<open>1, ..., nextProjectId - 1\<close>.\<close>

definition s_countVerified :: "s_Registry \<Rightarrow> nat" where
  "s_countVerified s =
     length (filter (\<lambda>i. sp_status (s_projects s i) = S_Verified) [1..<s_nextProjectId s])"

subsection \<open>The full contract: data\<close>

datatype ProjectStatus =
  PS_Pending | PS_Active | PS_Verified | PS_Suspended | PS_Completed | PS_Rejected

datatype EcosystemType = Mangrove | Seagrass | SaltMarsh | TidalMarsh | CoastalWetland

datatype StakeholderType = NGO | Community | Panchayat | Researcher | Government | Private

datatype MRVStatus =
  MRV_Submitted | MRV_UnderReview | MRV_Verified | MRV_Rejected | MRV_RequiresUpdate

record Project =
  p_id :: nat
  p_name :: string
  p_description :: string
  p_location :: string
  p_coordinates :: string
  p_area :: nat
  p_ecosystemType :: EcosystemType
  p_owner :: address
  p_status :: ProjectStatus
  p_createdAt :: nat
  p_lastUpdated :: nat
  p_verifiedAt :: nat
  p_verifiedBy :: address
  p_documentHashes :: "string list"
  p_estimatedCarbonCredits :: nat
  p_actualCarbonCredits :: nat
  p_totalAreaRestored :: nat
  p_isActive :: bool

record Stakeholder =
  sh_id :: nat
  sh_stakeholderAddress :: address
  sh_name :: string
  sh_organization :: string
  sh_stakeholderType :: StakeholderType
  sh_location :: string
  sh_contactInfo :: string
  sh_isApproved :: bool
  sh_isActive :: bool
  sh_registeredAt :: nat
  sh_approvedAt :: nat
  sh_approvedBy :: address
  sh_ownedProjects :: "nat list"
  sh_reputationScore :: nat
  sh_profileHash :: string

record MRVData =
  m_id :: nat
  m_projectId :: nat
  m_collector :: address
  m_timestamp :: nat
  m_dataHash :: string
  m_coordinates :: string
  m_methodologyUsed :: string
  m_carbonSequestration :: nat
  m_biomassGrowth :: nat
  m_areaMonitored :: nat
  m_status :: MRVStatus
  m_verifier :: address
  m_verifiedAt :: nat
  m_verificationNotes :: string
  m_attachmentHashes :: "string list"
  m_isValid :: bool

record VerificationCriteria =
  vc_minDataPoints :: nat
  vc_maxAgeInDays :: nat
  vc_minAreaCoverage :: nat
  vc_requiresPhysicalVerification :: bool
  vc_requiresThirdPartyAudit :: bool

record ProjectStatistics =
  st_totalMRVSubmissions :: nat
  st_verifiedMRVSubmissions :: nat
  st_lastMRVSubmission :: nat
  st_averageCarbonSequestration :: nat
  st_totalBiomassGrowth :: nat
  st_complianceScore :: nat

text \<open>
  Modelled from the spec: the \<open>Counters\<close> library is imported and not part of the
  repository. A counter is a number that \<open>increment\<close> raises by one and \<open>current\<close>
  reads, which gives every entity the fresh "server-generated id" of the data model.
\<close>

record Registry =
  roles :: "role \<Rightarrow> address \<Rightarrow> bool"
  paused :: bool
  projectIdCounter :: nat
  mrvDataIdCounter :: nat
  stakeholderIdCounter :: nat
  projects :: "nat \<Rightarrow> Project"
  stakeholders :: "nat \<Rightarrow> Stakeholder"
  stakeholderByAddress :: "address \<Rightarrow> nat"
  mrvData :: "nat \<Rightarrow> MRVData"
  projectMRVData :: "nat \<Rightarrow> nat list"
  projectStats :: "nat \<Rightarrow> ProjectStatistics"
  stakeholderProjects :: "address \<Rightarrow> nat list"
  verificationCriteria :: "EcosystemType \<Rightarrow> VerificationCriteria"
  totalProjects :: nat
  totalVerifiedProjects :: nat
  totalStakeholders :: nat
  totalApprovedStakeholders :: nat
  totalCarbonSequestered :: nat
  totalAreaUnderRestoration :: nat

definition zeroProject :: Project where
  "zeroProject = \<lparr>p_id = 0, p_name = [], p_description = [], p_location = [],
     p_coordinates = [], p_area = 0, p_ecosystemType = Mangrove, p_owner = 0,
     p_status = PS_Pending, p_createdAt = 0, p_lastUpdated = 0, p_verifiedAt = 0,
     p_verifiedBy = 0, p_documentHashes = [], p_estimatedCarbonCredits = 0,
     p_actualCarbonCredits = 0, p_totalAreaRestored = 0, p_isActive = False\<rparr>"

definition zeroStakeholder :: Stakeholder where
  "zeroStakeholder = \<lparr>sh_id = 0, sh_stakeholderAddress = 0, sh_name = [],
     sh_organization = [], sh_stakeholderType = NGO, sh_location = [], sh_contactInfo = [],
     sh_isApproved = False, sh_isActive = False, sh_registeredAt = 0, sh_approvedAt = 0,
     sh_approvedBy = 0, sh_ownedProjects = [], sh_reputationScore = 0, sh_profileHash = []\<rparr>"

definition zeroMRVData :: MRVData where
  "zeroMRVData = \<lparr>m_id = 0, m_projectId = 0, m_collector = 0, m_timestamp = 0,
     m_dataHash = [], m_coordinates = [], m_methodologyUsed = [], m_carbonSequestration = 0,
     m_biomassGrowth = 0, m_areaMonitored = 0, m_status = MRV_Submitted, m_verifier = 0,
     m_verifiedAt = 0, m_verificationNotes = [], m_attachmentHashes = [], m_isValid = False\<rparr>"

definition zeroStatistics :: ProjectStatistics where
  "zeroStatistics = \<lparr>st_totalMRVSubmissions = 0, st_verifiedMRVSubmissions = 0,
     st_lastMRVSubmission = 0, st_averageCarbonSequestration = 0, st_totalBiomassGrowth = 0,
     st_complianceScore = 0\<rparr>"

fun initializeVerificationCriteria :: "EcosystemType \<Rightarrow> VerificationCriteria" where
  "initializeVerificationCriteria Mangrove = \<lparr>vc_minDataPoints = 5, vc_maxAgeInDays = 90,
     vc_minAreaCoverage = 80, vc_requiresPhysicalVerification = True,
     vc_requiresThirdPartyAudit = True\<rparr>"
| "initializeVerificationCriteria Seagrass = \<lparr>vc_minDataPoints = 8, vc_maxAgeInDays = 60,
     vc_minAreaCoverage = 70, vc_requiresPhysicalVerification = True,
     vc_requiresThirdPartyAudit = True\<rparr>"
| "initializeVerificationCriteria SaltMarsh = \<lparr>vc_minDataPoints = 6, vc_maxAgeInDays = 75,
     vc_minAreaCoverage = 75, vc_requiresPhysicalVerification = True,
     vc_requiresThirdPartyAudit = False\<rparr>"
| "initializeVerificationCriteria TidalMarsh = \<lparr>vc_minDataPoints = 6, vc_maxAgeInDays = 75,
     vc_minAreaCoverage = 75, vc_requiresPhysicalVerification = True,
     vc_requiresThirdPartyAudit = False\<rparr>"
| "initializeVerificationCriteria CoastalWetland = \<lparr>vc_minDataPoints = 4,
     vc_maxAgeInDays = 120, vc_minAreaCoverage = 60, vc_requiresPhysicalVerification = False,
     vc_requiresThirdPartyAudit = False\<rparr>"

definition constructor :: "address \<Rightarrow> Registry" where
  "constructor sender = \<lparr>
     roles = (\<lambda>r a. a = sender \<and> (r = DEFAULT_ADMIN_ROLE \<or> r = ADMIN_ROLE \<or> r = VERIFIER_ROLE)),
     paused = False,
     projectIdCounter = 0,
     mrvDataIdCounter = 0,
     stakeholderIdCounter = 0,
     projects = (\<lambda>_. zeroProject),
     stakeholders = (\<lambda>_. zeroStakeholder),
     stakeholderByAddress = (\<lambda>_. 0),
     mrvData = (\<lambda>_. zeroMRVData),
     projectMRVData = (\<lambda>_. []),
     projectStats = (\<lambda>_. zeroStatistics),
     stakeholderProjects = (\<lambda>_. []),
     verificationCriteria = initializeVerificationCriteria,
     totalProjects = 0,
     totalVerifiedProjects = 0,
     totalStakeholders = 0,
     totalApprovedStakeholders = 0,
     totalCarbonSequestered = 0,
     totalAreaUnderRestoration = 0\<rparr>"

subsection \<open>The full contract: functions\<close>

definition registerStakeholder ::
  "Registry \<Rightarrow> address \<Rightarrow> nat \<Rightarrow> string \<Rightarrow> string \<Rightarrow> StakeholderType \<Rightarrow> string \<Rightarrow> string \<Rightarrow> string
     \<Rightarrow> error + Registry" where
  "registerStakeholder s sender now name organization stakeholderType location contactInfo profileHash =
    (if paused s then Inl (Revert ''Pausable: paused'')
     else if \<not> length name > 0 then Inl (Revert ''Name cannot be empty'')
     else if \<not> length organization > 0 then Inl (Revert ''Organization cannot be empty'')
     else if \<not> stakeholderByAddress s sender = 0 then Inl (Revert ''Stakeholder already registered'')
     else
       let stakeholderId = stakeholderIdCounter s + 1 in
       (case checked_add (totalStakeholders s) 1 of
          None \<Rightarrow> Inl Panic
        | Some newTotal \<Rightarrow>
            Inr (s\<lparr>stakeholderIdCounter := stakeholderId,
                   stakeholders := (stakeholders s)(stakeholderId :=
                     \<lparr>sh_id = stakeholderId, sh_stakeholderAddress = sender, sh_name = name,
                      sh_organization = organization, sh_stakeholderType = stakeholderType,
                      sh_location = location, sh_contactInfo = contactInfo, sh_isApproved = False,
                      sh_isActive = True, sh_registeredAt = now, sh_approvedAt = 0,
                      sh_approvedBy = 0, sh_ownedProjects = [], sh_reputationScore = 500,
                      sh_profileHash = profileHash\<rparr>),
                   stakeholderByAddress := (stakeholderByAddress s)(sender := stakeholderId),
                   totalStakeholders := newTotal\<rparr>)))"

definition approveStakeholder :: "Registry \<Rightarrow> address \<Rightarrow> nat \<Rightarrow> nat \<Rightarrow> error + Registry" where
  "approveStakeholder s sender now stakeholderId =
    (if \<not> roles s ADMIN_ROLE sender then Inl (MissingRole sender ADMIN_ROLE)
     else if paused s then Inl (Revert ''Pausable: paused'')
     else if \<not> sh_id (stakeholders s stakeholderId) \<noteq> 0 then Inl (Revert ''Stakeholder does not exist'')
     else if \<not> \<not> sh_isApproved (stakeholders s stakeholderId)
       then Inl (Revert ''Stakeholder already approved'')
     else
       let a = sh_stakeholderAddress (stakeholders s stakeholderId) in
       (case checked_add (totalApprovedStakeholders s) 1 of
          None \<Rightarrow> Inl Panic
        | Some newTotal \<Rightarrow>
            Inr (s\<lparr>stakeholders := (stakeholders s)(stakeholderId :=
                     (stakeholders s stakeholderId)\<lparr>sh_isApproved := True, sh_approvedAt := now,
                        sh_approvedBy := sender\<rparr>),
                   roles := (roles s)
                     (STAKEHOLDER_ROLE := (roles s STAKEHOLDER_ROLE)(a := True),
                      DATA_COLLECTOR_ROLE := (roles s DATA_COLLECTOR_ROLE)(a := True)),
                   totalApprovedStakeholders := newTotal\<rparr>)))"

definition registerProject ::
  "Registry \<Rightarrow> address \<Rightarrow> nat \<Rightarrow> string \<Rightarrow> string \<Rightarrow> string \<Rightarrow> string \<Rightarrow> nat \<Rightarrow> EcosystemType
     \<Rightarrow> string list \<Rightarrow> nat \<Rightarrow> error + Registry" where
  "registerProject s sender now name description location coordinates area ecosystemType
      documentHashes estimatedCarbonCredits =
    (if \<not> roles s STAKEHOLDER_ROLE sender then Inl (MissingRole sender STAKEHOLDER_ROLE)
     else if paused s then Inl (Revert ''Pausable: paused'')
     else if \<not> length name > 0 then Inl (Revert ''Project name cannot be empty'')
     else if \<not> length location > 0 then Inl (Revert ''Project location cannot be empty'')
     else if \<not> area > 0 then Inl (Revert ''Project area must be greater than zero'')
     else
       let stakeholderId = stakeholderByAddress s sender in
       if \<not> stakeholderId \<noteq> 0 then Inl (Revert ''Stakeholder not registered'')
       else if \<not> sh_isApproved (stakeholders s stakeholderId)
         then Inl (Revert ''Stakeholder not approved'')
       else
         let projectId = projectIdCounter s + 1;
             owner = stakeholders s stakeholderId
         in (case checked_add (totalProjects s) 1 of
               None \<Rightarrow> Inl Panic
             | Some newTotal \<Rightarrow>
                 (case checked_add (totalAreaUnderRestoration s) area of
                    None \<Rightarrow> Inl Panic
                  | Some newArea \<Rightarrow>
                      Inr (s\<lparr>projectIdCounter := projectId,
                             projects := (projects s)(projectId :=
                               \<lparr>p_id = projectId, p_name = name, p_description = description,
                                p_location = location, p_coordinates = coordinates, p_area = area,
                                p_ecosystemType = ecosystemType, p_owner = sender,
                                p_status = PS_Pending, p_createdAt = now, p_lastUpdated = now,
                                p_verifiedAt = 0, p_verifiedBy = 0,
                                p_documentHashes = documentHashes,
                                p_estimatedCarbonCredits = estimatedCarbonCredits,
                                p_actualCarbonCredits = 0, p_totalAreaRestored = 0,
                                p_isActive = True\<rparr>),
                             stakeholders := (stakeholders s)(stakeholderId :=
                               owner\<lparr>sh_ownedProjects := sh_ownedProjects owner @ [projectId]\<rparr>),
                             stakeholderProjects := (stakeholderProjects s)
                               (sender := stakeholderProjects s sender @ [projectId]),
                             projectStats := (projectStats s)(projectId :=
                               \<lparr>st_totalMRVSubmissions = 0, st_verifiedMRVSubmissions = 0,
                                st_lastMRVSubmission = 0, st_averageCarbonSequestration = 0,
                                st_totalBiomassGrowth = 0, st_complianceScore = 100\<rparr>),
                             totalProjects := newTotal,
                             totalAreaUnderRestoration := newArea\<rparr>))))"

definition updateProjectStatus ::
  "Registry \<Rightarrow> address \<Rightarrow> nat \<Rightarrow> nat \<Rightarrow> ProjectStatus \<Rightarrow> string \<Rightarrow> error + Registry" where
  "updateProjectStatus s sender now projectId newStatus reason =
    (if \<not> roles s ADMIN_ROLE sender then Inl (MissingRole sender ADMIN_ROLE)
     else if paused s then Inl (Revert ''Pausable: paused'')
     else if \<not> p_id (projects s projectId) \<noteq> 0 then Inl (Revert ''Project does not exist'')
     else if \<not> p_isActive (projects s projectId) then Inl (Revert ''Project is not active'')
     else
       let oldStatus = p_status (projects s projectId) in
       if \<not> oldStatus \<noteq> newStatus then Inl (Revert ''Status is already set to this value'')
       else
         let project = (projects s projectId)\<lparr>p_status := newStatus, p_lastUpdated := now\<rparr> in
         if oldStatus \<noteq> PS_Verified \<and> newStatus = PS_Verified
         then (case checked_add (totalVerifiedProjects s) 1 of
                 None \<Rightarrow> Inl Panic
               | Some newTotal \<Rightarrow>
                   Inr (s\<lparr>projects := (projects s)(projectId :=
                            project\<lparr>p_verifiedAt := now, p_verifiedBy := sender\<rparr>),
                          totalVerifiedProjects := newTotal\<rparr>))
         else if oldStatus = PS_Verified \<and> newStatus \<noteq> PS_Verified
         then (case checked_sub (totalVerifiedProjects s) 1 of
                 None \<Rightarrow> Inl Panic
               | Some newTotal \<Rightarrow>
                   Inr (s\<lparr>projects := (projects s)(projectId := project),
                          totalVerifiedProjects := newTotal\<rparr>))
         else Inr (s\<lparr>projects := (projects s)(projectId := project)\<rparr>))"

definition submitMRVData ::
  "Registry \<Rightarrow> address \<Rightarrow> nat \<Rightarrow> nat \<Rightarrow> string \<Rightarrow> string \<Rightarrow> string \<Rightarrow> nat \<Rightarrow> nat \<Rightarrow> nat \<Rightarrow> string list
     \<Rightarrow> error + Registry" where
  "submitMRVData s sender now projectId dataHash coordinates methodologyUsed carbonSequestration
      biomassGrowth areaMonitored attachmentHashes =
    (if \<not> roles s DATA_COLLECTOR_ROLE sender then Inl (MissingRole sender DATA_COLLECTOR_ROLE)
     else if paused s then Inl (Revert ''Pausable: paused'')
     else if \<not> p_id (projects s projectId) \<noteq> 0 then Inl (Revert ''Project does not exist'')
     else if \<not> p_isActive (projects s projectId) then Inl (Revert ''Project is not active'')
     else if \<not> (p_status (projects s projectId) = PS_Active
                \<or> p_status (projects s projectId) = PS_Verified)
       then Inl (Revert ''Project must be active or verified'')
     else if \<not> length dataHash > 0 then Inl (Revert ''Data hash cannot be empty'')
     else if \<not> carbonSequestration > 0
       then Inl (Revert ''Carbon sequestration must be greater than zero'')
     else
       let dataId = mrvDataIdCounter s + 1;
           stats = projectStats s projectId
       in (case checked_add (st_totalMRVSubmissions stats) 1 of
             None \<Rightarrow> Inl Panic
           | Some submissions \<Rightarrow>
               Inr (s\<lparr>mrvDataIdCounter := dataId,
                      mrvData := (mrvData s)(dataId :=
                        \<lparr>m_id = dataId, m_projectId = projectId, m_collector = sender,
                         m_timestamp = now, m_dataHash = dataHash, m_coordinates = coordinates,
                         m_methodologyUsed = methodologyUsed,
                         m_carbonSequestration = carbonSequestration,
                         m_biomassGrowth = biomassGrowth, m_areaMonitored = areaMonitored,
                         m_status = MRV_Submitted, m_verifier = 0, m_verifiedAt = 0,
                         m_verificationNotes = [], m_attachmentHashes = attachmentHashes,
                         m_isValid = False\<rparr>),
                      projectMRVData := (projectMRVData s)
                        (projectId := projectMRVData s projectId @ [dataId]),
                      projectStats := (projectStats s)(projectId :=
                        stats\<lparr>st_totalMRVSubmissions := submissions, st_lastMRVSubmission := now\<rparr>),
                      projects := (projects s)(projectId :=
                        (projects s projectId)\<lparr>p_lastUpdated := now\<rparr>)\<rparr>)))"

text \<open>
  \<open>_updateStakeholderReputation\<close>: the conditional expression evaluates only the branch
  it takes, so the subtraction never underflows; the addition in the test is checked.
\<close>

definition updateStakeholderReputation :: "Registry \<Rightarrow> address \<Rightarrow> bool \<Rightarrow> error + Registry" where
  "updateStakeholderReputation s stakeholderAddress positive =
    (let stakeholderId = stakeholderByAddress s stakeholderAddress in
     if stakeholderId = 0 then Inr s
     else
       let stakeholder = stakeholders s stakeholderId;
           score = sh_reputationScore stakeholder
       in if positive
          then (case checked_add score 10 of
                  None \<Rightarrow> Inl Panic
                | Some raised \<Rightarrow>
                    Inr (s\<lparr>stakeholders := (stakeholders s)(stakeholderId :=
                      stakeholder\<lparr>sh_reputationScore := (if raised > 1000 then 1000 else raised)\<rparr>)\<rparr>))
          else Inr (s\<lparr>stakeholders := (stakeholders s)(stakeholderId :=
                 stakeholder\<lparr>sh_reputationScore := (if score < 20 then 0 else score - 20)\<rparr>)\<rparr>))"

text \<open>
  The loop of \<open>verifyMRVData\<close> over the project's data ids: the sum of the valid
  records' sequestration and their count, \<open>None\<close> when an addition overflows.
\<close>

fun averageLoop :: "(nat \<Rightarrow> MRVData) \<Rightarrow> nat list \<Rightarrow> nat \<Rightarrow> nat \<Rightarrow> (nat \<times> nat) option" where
  "averageLoop mrv [] totalSequestration verifiedCount = Some (totalSequestration, verifiedCount)"
| "averageLoop mrv (dataId # dataIds) totalSequestration verifiedCount =
     (if m_isValid (mrv dataId)
      then (case checked_add totalSequestration (m_carbonSequestration (mrv dataId)) of
              None \<Rightarrow> None
            | Some newSum \<Rightarrow>
                (case checked_add verifiedCount 1 of
                   None \<Rightarrow> None
                 | Some newCount \<Rightarrow> averageLoop mrv dataIds newSum newCount))
      else averageLoop mrv dataIds totalSequestration verifiedCount)"

definition verifyMRVData ::
  "Registry \<Rightarrow> address \<Rightarrow> nat \<Rightarrow> nat \<Rightarrow> MRVStatus \<Rightarrow> string \<Rightarrow> error + Registry" where
  "verifyMRVData s sender now dataId verificationStatus verificationNotes =
    (if \<not> roles s VERIFIER_ROLE sender then Inl (MissingRole sender VERIFIER_ROLE)
     else if paused s then Inl (Revert ''Pausable: paused'')
     else if \<not> m_id (mrvData s dataId) \<noteq> 0 then Inl (Revert ''MRV data does not exist'')
     else if \<not> (m_status (mrvData s dataId) = MRV_Submitted
                \<or> m_status (mrvData s dataId) = MRV_UnderReview)
       then Inl (Revert ''Data not in verifiable status'')
     else if \<not> verificationStatus \<noteq> MRV_Submitted
       then Inl (Revert ''Cannot set status back to submitted'')
     else
       let data = (mrvData s dataId)\<lparr>m_status := verificationStatus, m_verifier := sender,
                    m_verifiedAt := now, m_verificationNotes := verificationNotes,
                    m_isValid := (verificationStatus = MRV_Verified)\<rparr>;
           s1 = s\<lparr>mrvData := (mrvData s)(dataId := data)\<rparr>;
           projectId = m_projectId data;
           stats = projectStats s1 projectId;
           project = projects s1 projectId
       in if verificationStatus = MRV_Verified
          then
            (case checked_add (st_verifiedMRVSubmissions stats) 1 of
               None \<Rightarrow> Inl Panic
             | Some verifiedSubmissions \<Rightarrow>
            (case checked_add (p_actualCarbonCredits project) (m_carbonSequestration data) of
               None \<Rightarrow> Inl Panic
             | Some credits \<Rightarrow>
            (case checked_add (totalCarbonSequestered s1) (m_carbonSequestration data) of
               None \<Rightarrow> Inl Panic
             | Some sequestered \<Rightarrow>
            (case checked_add (p_totalAreaRestored project) (m_areaMonitored data) of
               None \<Rightarrow> Inl Panic
             | Some restored \<Rightarrow>
            (case (if verifiedSubmissions > 0
                   then (case averageLoop (mrvData s1) (projectMRVData s1 projectId) 0 0 of
                           None \<Rightarrow> None
                         | Some (totalSequestration, verifiedCount) \<Rightarrow>
                             Some (if verifiedCount > 0
                                   then totalSequestration div verifiedCount
                                   else st_averageCarbonSequestration stats))
                   else Some (st_averageCarbonSequestration stats)) of
               None \<Rightarrow> Inl Panic
             | Some average \<Rightarrow>
            (case (if st_totalMRVSubmissions stats > 0
                   then (case checked_mul verifiedSubmissions 100 of
                           None \<Rightarrow> None
                         | Some scaled \<Rightarrow> Some (scaled div st_totalMRVSubmissions stats))
                   else Some (st_complianceScore stats)) of
               None \<Rightarrow> Inl Panic
             | Some compliance \<Rightarrow>
                 updateStakeholderReputation
                   (s1\<lparr>projectStats := (projectStats s1)(projectId :=
                          stats\<lparr>st_verifiedMRVSubmissions := verifiedSubmissions,
                                st_averageCarbonSequestration := average,
                                st_complianceScore := compliance\<rparr>),
                        projects := (projects s1)(projectId :=
                          project\<lparr>p_actualCarbonCredits := credits,
                                  p_totalAreaRestored := restored\<rparr>),
                        totalCarbonSequestered := sequestered\<rparr>)
                   (p_owner project) True))))))
          else if verificationStatus = MRV_Rejected
          then updateStakeholderReputation s1 (p_owner project) False
          else Inr s1)"

definition getRegistryStatistics :: "Registry \<Rightarrow> nat \<times> nat \<times> nat \<times> nat \<times> nat \<times> nat" where
  "getRegistryStatistics s =
    (totalProjects s, totalVerifiedProjects s, totalStakeholders s,
     totalApprovedStakeholders s, totalCarbonSequestered s, totalAreaUnderRestoration s)"

definition updateVerificationCriteria ::
  "Registry \<Rightarrow> address \<Rightarrow> EcosystemType \<Rightarrow> nat \<Rightarrow> nat \<Rightarrow> nat \<Rightarrow> bool \<Rightarrow> bool \<Rightarrow> error + Registry" where
  "updateVerificationCriteria s sender ecosystemType minDataPoints maxAgeInDays minAreaCoverage
      requiresPhysicalVerification requiresThirdPartyAudit =
    (if \<not> roles s ADMIN_ROLE sender then Inl (MissingRole sender ADMIN_ROLE)
     else Inr (s\<lparr>verificationCriteria := (verificationCriteria s)(ecosystemType :=
       \<lparr>vc_minDataPoints = minDataPoints, vc_maxAgeInDays = maxAgeInDays,
        vc_minAreaCoverage = minAreaCoverage,
        vc_requiresPhysicalVerification = requiresPhysicalVerification,
        vc_requiresThirdPartyAudit = requiresThirdPartyAudit\<rparr>)\<rparr>))"

definition setRole :: "Registry \<Rightarrow> role \<Rightarrow> address \<Rightarrow> bool \<Rightarrow> Registry" where
  "setRole s r account b = s\<lparr>roles := (roles s)(r := (roles s r)(account := b))\<rparr>"

definition grantVerifierRole :: "Registry \<Rightarrow> address \<Rightarrow> address \<Rightarrow> error + Registry" where
  "grantVerifierRole s sender account =
    (if \<not> roles s ADMIN_ROLE sender then Inl (MissingRole sender ADMIN_ROLE)
     else Inr (setRole s VERIFIER_ROLE account True))"

definition revokeVerifierRole :: "Registry \<Rightarrow> address \<Rightarrow> address \<Rightarrow> error + Registry" where
  "revokeVerifierRole s sender account =
    (if \<not> roles s ADMIN_ROLE sender then Inl (MissingRole sender ADMIN_ROLE)
     else Inr (setRole s VERIFIER_ROLE account False))"

definition grantDataCollectorRole :: "Registry \<Rightarrow> address \<Rightarrow> address \<Rightarrow> error + Registry" where
  "grantDataCollectorRole s sender account =
    (if \<not> roles s ADMIN_ROLE sender then Inl (MissingRole sender ADMIN_ROLE)
     else Inr (setRole s DATA_COLLECTOR_ROLE account True))"

definition revokeDataCollectorRole :: "Registry \<Rightarrow> address \<Rightarrow> address \<Rightarrow> error + Registry" where
  "revokeDataCollectorRole s sender account =
    (if \<not> roles s ADMIN_ROLE sender then Inl (MissingRole sender ADMIN_ROLE)
     else Inr (setRole s DATA_COLLECTOR_ROLE account False))"

definition pauseContract :: "Registry \<Rightarrow> address \<Rightarrow> error + Registry" where
  "pauseContract s sender =
    (if \<not> roles s ADMIN_ROLE sender then Inl (MissingRole sender ADMIN_ROLE)
     else if paused s then Inl (Revert ''Pausable: paused'')
     else Inr (s\<lparr>paused := True\<rparr>))"

definition unpauseContract :: "Registry \<Rightarrow> address \<Rightarrow> error + Registry" where
  "unpauseContract s sender =
    (if \<not> roles s ADMIN_ROLE sender then Inl (MissingRole sender ADMIN_ROLE)
     else if \<not> paused s then Inl (Revert ''Pausable: not paused'')
     else Inr (s\<lparr>paused := False\<rparr>))"

definition deactivateProject :: "Registry \<Rightarrow> address \<Rightarrow> nat \<Rightarrow> nat \<Rightarrow> error + Registry" where
  "deactivateProject s sender now projectId =
    (if \<not> roles s ADMIN_ROLE sender then Inl (MissingRole sender ADMIN_ROLE)
     else if \<not> p_id (projects s projectId) \<noteq> 0 then Inl (Revert ''Project does not exist'')
     else Inr (s\<lparr>projects := (projects s)(projectId :=
       (projects s projectId)\<lparr>p_isActive := False, p_lastUpdated := now\<rparr>)\<rparr>))"

definition deactivateStakeholder :: "Registry \<Rightarrow> address \<Rightarrow> nat \<Rightarrow> error + Registry" where
  "deactivateStakeholder s sender stakeholderId =
    (if \<not> roles s ADMIN_ROLE sender then Inl (MissingRole sender ADMIN_ROLE)
     else if \<not> sh_id (stakeholders s stakeholderId) \<noteq> 0 then Inl (Revert ''Stakeholder does not exist'')
     else
       let a = sh_stakeholderAddress (stakeholders s stakeholderId) in
       Inr (s\<lparr>stakeholders := (stakeholders s)(stakeholderId :=
                (stakeholders s stakeholderId)\<lparr>sh_isActive := False\<rparr>),
              roles := (roles s)
                (STAKEHOLDER_ROLE := (roles s STAKEHOLDER_ROLE)(a := False),
                 DATA_COLLECTOR_ROLE := (roles s DATA_COLLECTOR_ROLE)(a := False))\<rparr>))"

text \<open>The inherited AccessControl functions, as in the simplified contract.\<close>

definition grantRole :: "Registry \<Rightarrow> address \<Rightarrow> role \<Rightarrow> address \<Rightarrow> error + Registry" where
  "grantRole s sender r account =
    (if \<not> roles s DEFAULT_ADMIN_ROLE sender then Inl (MissingRole sender DEFAULT_ADMIN_ROLE)
     else Inr (setRole s r account True))"

definition revokeRole :: "Registry \<Rightarrow> address \<Rightarrow> role \<Rightarrow> address \<Rightarrow> error + Registry" where
  "revokeRole s sender r account =
    (if \<not> roles s DEFAULT_ADMIN_ROLE sender then Inl (MissingRole sender DEFAULT_ADMIN_ROLE)
     else Inr (setRole s r account False))"

definition renounceRole :: "Registry \<Rightarrow> address \<Rightarrow> role \<Rightarrow> address \<Rightarrow> error + Registry" where
  "renounceRole s sender r account =
    (if \<not> account = sender then Inl (Revert ''AccessControl: can only renounce roles for self'')
     else Inr (setRole s r account False))"

subsection \<open>The full contract: transactions\<close>

text \<open>
  As for the simplified contract, a call is one of the state-changing external functions;
  views and events are left out. So are \<open>emergencyWithdraw\<close>, \<open>receive\<close> and
  \<open>fallback\<close>: they move the contract's balance and write no storage variable of the
  registry.
\<close>

datatype call =
  RegisterStakeholder string string StakeholderType string string string
| ApproveStakeholder nat
| RegisterProject string string string string nat EcosystemType "string list" nat
| UpdateProjectStatus nat ProjectStatus string
| SubmitMRVData nat string string string nat nat nat "string list"
| VerifyMRVData nat MRVStatus string
| UpdateVerificationCriteria EcosystemType nat nat nat bool bool
| GrantVerifierRole address
| RevokeVerifierRole address
| GrantDataCollectorRole address
| RevokeDataCollectorRole address
| PauseContract
| UnpauseContract
| DeactivateProject nat
| DeactivateStakeholder nat
| GrantRole role address
| RevokeRole role address
| RenounceRole role address

fun exec :: "Registry \<Rightarrow> address \<Rightarrow> nat \<Rightarrow> call \<Rightarrow> error + Registry" where
  "exec s sender now (RegisterStakeholder name org ty location contact profile) =
     registerStakeholder s sender now name org ty location contact profile"
| "exec s sender now (ApproveStakeholder stakeholderId) =
     approveStakeholder s sender now stakeholderId"
| "exec s sender now (RegisterProject name descr location coords area eco docs est) =
     registerProject s sender now name descr location coords area eco docs est"
| "exec s sender now (UpdateProjectStatus projectId st reason) =
     updateProjectStatus s sender now projectId st reason"
| "exec s sender now (SubmitMRVData projectId dataHash coords meth cs bio area atts) =
     submitMRVData s sender now projectId dataHash coords meth cs bio area atts"
| "exec s sender now (VerifyMRVData dataId st notes) = verifyMRVData s sender now dataId st notes"
| "exec s sender now (UpdateVerificationCriteria eco a b c d e) =
     updateVerificationCriteria s sender eco a b c d e"
| "exec s sender now (GrantVerifierRole a) = grantVerifierRole s sender a"
| "exec s sender now (RevokeVerifierRole a) = revokeVerifierRole s sender a"
| "exec s sender now (GrantDataCollectorRole a) = grantDataCollectorRole s sender a"
| "exec s sender now (RevokeDataCollectorRole a) = revokeDataCollectorRole s sender a"
| "exec s sender now PauseContract = pauseContract s sender"
| "exec s sender now UnpauseContract = unpauseContract s sender"
| "exec s sender now (DeactivateProject projectId) = deactivateProject s sender now projectId"
| "exec s sender now (DeactivateStakeholder stakeholderId) =
     deactivateStakeholder s sender stakeholderId"
| "exec s sender now (GrantRole r a) = grantRole s sender r a"
| "exec s sender now (RevokeRole r a) = revokeRole s sender r a"
| "exec s sender now (RenounceRole r a) = renounceRole s sender r a"

definition transact :: "Registry \<Rightarrow> address \<times> nat \<times> call \<Rightarrow> Registry" where
  "transact s tx = (case tx of (sender, now, c) \<Rightarrow>
     (case exec s sender now c of Inl e \<Rightarrow> s | Inr s' \<Rightarrow> s'))"

definition run :: "Registry \<Rightarrow> (address \<times> nat \<times> call) list \<Rightarrow> Registry" where
  "run s txs = foldl transact s txs"

inductive reachable :: "Registry \<Rightarrow> bool" where
  init: "reachable (constructor deployer)"
| step: "reachable s \<Longrightarrow> exec s sender now c = Inr s' \<Longrightarrow> reachable s'"

definition countVerified :: "Registry \<Rightarrow> nat" where
  "countVerified s =
     length (filter (\<lambda>i. p_status (projects s i) = PS_Verified) [1..<projectIdCounter s + 1])"

subsection \<open>The REST layer: validation\<close>

text \<open>
  A request body is a JSON object. The model keeps the keys the validation chains and the
  handlers name, each absent (\<open>None\<close>) or holding a JSON string or number; a number is
  the rational the JSON parser read.
\<close>

text \<open>
  Modelled from the spec: the \<open>express-validator\<close> package is imported and not part of
  the repository; its validators are taken as the chains' messages describe them
  ("well-formed input", "field-level error list"): a chain runs every validator on the
  field's value turned into a string (an absent value is the empty string), each failed
  validator adds the message that follows it, and a chain marked \<open>optional\<close> is skipped
  when the field is absent.
\<close>

type_synonym r_errors = "(string \<times> string) list"

definition toString :: "string option \<Rightarrow> string" where
  "toString v = (case v of None \<Rightarrow> [] | Some s \<Rightarrow> s)"

definition check :: "bool \<Rightarrow> string \<Rightarrow> string \<Rightarrow> r_errors" where
  "check ok field msg = (if ok then [] else [(field, msg)])"

definition notEmpty :: "string \<Rightarrow> bool" where
  "notEmpty s = (s \<noteq> [])"

definition isLength :: "nat \<Rightarrow> nat \<Rightarrow> string \<Rightarrow> bool" where
  "isLength lo hi s = (lo \<le> length s \<and> length s \<le> hi)"

definition isIn :: "string list \<Rightarrow> string \<Rightarrow> bool" where
  "isIn allowed s = (s \<in> set allowed)"

text \<open>\<open>isFloat\<close> with both bounds and with a lower bound only; an absent number fails.\<close>

definition isFloat :: "rat \<Rightarrow> rat \<Rightarrow> rat option \<Rightarrow> bool" where
  "isFloat lo hi v = (case v of None \<Rightarrow> False | Some x \<Rightarrow> lo \<le> x \<and> x \<le> hi)"

definition isFloatMin :: "rat \<Rightarrow> rat option \<Rightarrow> bool" where
  "isFloatMin lo v = (case v of None \<Rightarrow> False | Some x \<Rightarrow> lo \<le> x)"

definition isIntMin :: "int \<Rightarrow> rat \<Rightarrow> bool" where
  "isIntMin lo x = (of_int (floor x) = x \<and> of_int lo \<le> x)"

definition isDigit :: "char \<Rightarrow> bool" where
  "isDigit c = (c \<in> set ''0123456789'')"

definition isHexDigit :: "char \<Rightarrow> bool" where
  "isHexDigit c = (c \<in> set ''0123456789abcdefABCDEF'')"

text \<open>The pattern \<^verbatim>\<open>-?\d+\.?\d*\<close> against a whole string.\<close>

definition matchesNumber :: "string \<Rightarrow> bool" where
  "matchesNumber s =
    (let unsigned = (case s of [] \<Rightarrow> [] | c # cs \<Rightarrow> if c = CHR ''-'' then cs else s);
         whole = takeWhile isDigit unsigned;
         rest = dropWhile isDigit unsigned;
         fraction = (case rest of [] \<Rightarrow> [] | c # cs \<Rightarrow> if c = CHR ''.'' then cs else rest)
     in whole \<noteq> [] \<and> list_all isDigit fraction)"

text \<open>The pattern \<^verbatim>\<open>^-?\d+\.?\d*,-?\d+\.?\d*$\<close>: neither number holds a comma.\<close>

definition matchesCoordinates :: "string \<Rightarrow> bool" where
  "matchesCoordinates s =
    (case dropWhile (\<lambda>c. c \<noteq> CHR '','') s of
       [] \<Rightarrow> False
     | c # longitude \<Rightarrow>
         matchesNumber (takeWhile (\<lambda>c. c \<noteq> CHR '','') s) \<and> matchesNumber longitude)"

text \<open>The pattern \<^verbatim>\<open>^0x[a-fA-F0-9]{40}$\<close>.\<close>

definition matchesAddress :: "string \<Rightarrow> bool" where
  "matchesAddress s =
    (case s of
       c0 # c1 # digits \<Rightarrow>
         c0 = CHR ''0'' \<and> c1 = CHR ''x'' \<and> length digits = 40 \<and> list_all isHexDigit digits
     | _ \<Rightarrow> False)"

text \<open>The message of the coordinates chains; it holds two double quotes.\<close>

definition coordinatesMessage :: string where
  "coordinatesMessage =
     ''Coordinates must be in format '' @ [CHR 0x22] @ ''latitude,longitude'' @ [CHR 0x22]"

record r_ProjectBody =
  b_id :: "string option"
  b_name :: "string option"
  b_location :: "string option"
  b_area :: "rat option"
  b_ecosystemType :: "string option"
  b_description :: "string option"
  b_estimatedCredits :: "rat option"
  b_coordinates :: "string option"
  b_ownerAddress :: "string option"

definition validateProjectRegistration :: "r_ProjectBody \<Rightarrow> r_errors" where
  "validateProjectRegistration b =
     check (notEmpty (toString (b_name b))) ''name'' ''Project name is required''
   @ check (isLength 3 200 (toString (b_name b))) ''name''
       ''Project name must be between 3 and 200 characters''
   @ check (notEmpty (toString (b_location b))) ''location'' ''Project location is required''
   @ check (isLength 3 200 (toString (b_location b))) ''location''
       ''Location must be between 3 and 200 characters''
   @ check (b_area b \<noteq> None) ''area'' ''Project area is required''
   @ check (isFloat (1 / 10) 100000 (b_area b)) ''area''
       ''Area must be between 0.1 and 100,000 hectares''
   @ check (notEmpty (toString (b_ecosystemType b))) ''ecosystemType''
       ''Ecosystem type is required''
   @ check (isIn [''mangrove'', ''seagrass'', ''saltmarsh'', ''tidalmarsh'']
         (toString (b_ecosystemType b))) ''ecosystemType'' ''Invalid ecosystem type''
   @ (case b_description b of
        None \<Rightarrow> []
      | Some d \<Rightarrow> check (isLength 0 2000 d) ''description''
          ''Description must not exceed 2000 characters'')
   @ (case b_estimatedCredits b of
        None \<Rightarrow> []
      | Some e \<Rightarrow> check (isIntMin 0 e) ''estimatedCredits''
          ''Estimated credits must be a non-negative integer'')
   @ (case b_coordinates b of
        None \<Rightarrow> []
      | Some c \<Rightarrow> check (matchesCoordinates c) ''coordinates''
          coordinatesMessage)"

text \<open>
  The MRV body's optional \<open>timestamp\<close> is left out: the handler overwrites it.
\<close>

record r_MRVBody =
  mb_id :: "string option"
  mb_projectId :: "string option"
  mb_dataHash :: "string option"
  mb_coordinates :: "string option"
  mb_carbonSequestration :: "rat option"
  mb_collectorAddress :: "string option"

definition validateMRVData :: "r_MRVBody \<Rightarrow> r_errors" where
  "validateMRVData b =
     check (notEmpty (toString (mb_projectId b))) ''projectId'' ''Project ID is required''
   @ check (mb_projectId b \<noteq> None) ''projectId'' ''Project ID must be a string''
   @ check (notEmpty (toString (mb_dataHash b))) ''dataHash'' ''Data hash is required''
   @ check (isLength 10 200 (toString (mb_dataHash b))) ''dataHash''
       ''Data hash must be between 10 and 200 characters''
   @ check (notEmpty (toString (mb_coordinates b))) ''coordinates''
       ''GPS coordinates are required''
   @ check (matchesCoordinates (toString (mb_coordinates b))) ''coordinates''
       coordinatesMessage
   @ check (mb_carbonSequestration b \<noteq> None) ''carbonSequestration''
       ''Carbon sequestration value is required''
   @ check (isFloatMin 0 (mb_carbonSequestration b)) ''carbonSequestration''
       ''Carbon sequestration must be a non-negative number''
   @ check (notEmpty (toString (mb_collectorAddress b))) ''collectorAddress''
       ''Collector address is required''
   @ check (matchesAddress (toString (mb_collectorAddress b))) ''collectorAddress''
       ''Invalid collector address format''"

record r_AdminBody =
  ab_action :: "string option"
  ab_targetId :: "string option"
  ab_reason :: "string option"
  ab_adminAddress :: "string option"

definition validateAdminAction :: "r_AdminBody \<Rightarrow> r_errors" where
  "validateAdminAction b =
     check (notEmpty (toString (ab_action b))) ''action'' ''Action is required''
   @ check (isIn [''approve'', ''reject'', ''suspend'', ''activate'', ''verify'']
         (toString (ab_action b))) ''action'' ''Invalid action type''
   @ check (notEmpty (toString (ab_targetId b))) ''targetId'' ''Target ID is required''
   @ check (ab_targetId b \<noteq> None) ''targetId'' ''Target ID must be a string''
   @ (case ab_reason b of
        None \<Rightarrow> []
      | Some r \<Rightarrow> check (isLength 0 500 r) ''reason'' ''Reason must not exceed 500 characters'')
   @ check (notEmpty (toString (ab_adminAddress b))) ''adminAddress''
       ''Admin address is required''
   @ check (matchesAddress (toString (ab_adminAddress b))) ''adminAddress''
       ''Invalid admin address format''"

subsection \<open>The REST layer: records and handlers\<close>

record r_Project =
  rp_id :: string
  rp_name :: "string option"
  rp_location :: "string option"
  rp_area :: "rat option"
  rp_ecosystemType :: "string option"
  rp_description :: "string option"
  rp_estimatedCredits :: "rat option"
  rp_coordinates :: "string option"
  rp_ownerAddress :: "string option"
  rp_status :: string
  rp_createdAt :: string
  rp_owner :: string
  rp_actualCredits :: rat
  rp_verifiedAt :: "string option"
  rp_approvedAt :: "string option"
  rp_rejectedAt :: "string option"
  rp_rejectionReason :: "string option"
  rp_suspendedAt :: "string option"
  rp_suspensionReason :: "string option"
  rp_lastModified :: "string option"

record r_StakeholderBody =
  sb_id :: "string option"
  sb_name :: "string option"
  sb_organization :: "string option"
  sb_stakeholderType :: "string option"
  sb_location :: "string option"

record r_Stakeholder =
  rs_id :: string
  rs_name :: "string option"
  rs_organization :: "string option"
  rs_stakeholderType :: "string option"
  rs_location :: "string option"
  rs_registrationDate :: string
  rs_status :: string
  rs_approvedAt :: "string option"
  rs_approvedBy :: "string option"

record r_MRVEntry =
  rm_id :: string
  rm_projectId :: "string option"
  rm_dataHash :: "string option"
  rm_coordinates :: "string option"
  rm_carbonSequestration :: "rat option"
  rm_collectorAddress :: "string option"
  rm_timestamp :: string
  rm_status :: string
  rm_verified :: bool
  rm_verifiedAt :: "string option"
  rm_verifiedBy :: "string option"

text \<open>The data directory: one JSON array per file.\<close>

record r_Store =
  projects_json :: "r_Project list"
  stakeholders_json :: "r_Stakeholder list"
  mrv_data_json :: "r_MRVEntry list"

datatype r_Payload =
  ValidationFailed r_errors
| ErrorMessage string
| ProjectPayload string r_Project
| StakeholderPayload string r_Stakeholder
| MRVPayload string r_MRVEntry
| IdPayload string string

record r_Response =
  statusCode :: nat
  payload :: r_Payload

fun findIndex :: "('a \<Rightarrow> bool) \<Rightarrow> 'a list \<Rightarrow> nat option" where
  "findIndex P [] = None"
| "findIndex P (x # xs) =
     (if P x then Some 0 else (case findIndex P xs of None \<Rightarrow> None | Some i \<Rightarrow> Some (Suc i)))"

text \<open>
  The handlers take the store, \<open>Date.now().toString()\<close> as \<open>nowId\<close> and
  \<open>new Date().toISOString()\<close> as \<open>isoDate\<close>. The object spread puts the body's keys
  after \<open>id\<close> and before the keys the handler sets.
\<close>

definition post_projects :: "r_Store \<Rightarrow> string \<Rightarrow> string \<Rightarrow> r_ProjectBody \<Rightarrow> r_Store \<times> r_Response" where
  "post_projects store nowId isoDate b =
    (let errors = validateProjectRegistration b in
     if errors \<noteq> [] then (store, \<lparr>statusCode = 400, payload = ValidationFailed errors\<rparr>)
     else
       let newProject = \<lparr>
             rp_id = (case b_id b of None \<Rightarrow> nowId | Some i \<Rightarrow> i),
             rp_name = b_name b, rp_location = b_location b, rp_area = b_area b,
             rp_ecosystemType = b_ecosystemType b, rp_description = b_description b,
             rp_estimatedCredits = b_estimatedCredits b, rp_coordinates = b_coordinates b,
             rp_ownerAddress = b_ownerAddress b,
             rp_status = ''pending'',
             rp_createdAt = isoDate,
             rp_owner = (if toString (b_ownerAddress b) = [] then ''unknown''
                         else toString (b_ownerAddress b)),
             rp_actualCredits = 0,
             rp_verifiedAt = None, rp_approvedAt = None, rp_rejectedAt = None,
             rp_rejectionReason = None, rp_suspendedAt = None, rp_suspensionReason = None,
             rp_lastModified = None\<rparr>
       in (store\<lparr>projects_json := projects_json store @ [newProject]\<rparr>,
           \<lparr>statusCode = 201,
            payload = ProjectPayload ''Project created successfully'' newProject\<rparr>))"

definition put_projects_status ::
  "r_Store \<Rightarrow> string \<Rightarrow> string \<Rightarrow> r_AdminBody \<Rightarrow> r_Store \<times> r_Response" where
  "put_projects_status store isoDate projectId b =
    (let errors = validateAdminAction b in
     if errors \<noteq> [] then (store, \<lparr>statusCode = 400, payload = ValidationFailed errors\<rparr>)
     else
       (case findIndex (\<lambda>p. rp_id p = projectId) (projects_json store) of
          None \<Rightarrow> (store, \<lparr>statusCode = 404, payload = ErrorMessage ''Project not found''\<rparr>)
        | Some projectIndex \<Rightarrow>
            let action = toString (ab_action b);
                reason = ab_reason b;
                project = projects_json store ! projectIndex;
                changed =
                  (if action = ''verify''
                   then Some (project\<lparr>rp_status := ''verified'', rp_verifiedAt := Some isoDate\<rparr>)
                   else if action = ''approve''
                   then Some (project\<lparr>rp_status := ''active'', rp_approvedAt := Some isoDate\<rparr>)
                   else if action = ''reject''
                   then Some (project\<lparr>rp_status := ''rejected'', rp_rejectedAt := Some isoDate,
                                rp_rejectionReason := reason\<rparr>)
                   else if action = ''suspend''
                   then Some (project\<lparr>rp_status := ''suspended'', rp_suspendedAt := Some isoDate,
                                rp_suspensionReason := reason\<rparr>)
                   else None)
            in (case changed of
                  None \<Rightarrow> (store, \<lparr>statusCode = 400, payload = ErrorMessage ''Invalid action''\<rparr>)
                | Some p \<Rightarrow>
                    let saved = p\<lparr>rp_lastModified := Some isoDate\<rparr> in
                    (store\<lparr>projects_json := (projects_json store)[projectIndex := saved]\<rparr>,
                     \<lparr>statusCode = 200,
                      payload = ProjectPayload (''Project '' @ action @ ''ed successfully'') saved\<rparr>))))"

text \<open>
  Stakeholder registration (\<^verbatim>\<open>src/app.js\<close>): the handler itself; its validation chain
  only narrows the bodies the handler sees.
\<close>

definition post_stakeholder_register ::
  "r_Store \<Rightarrow> string \<Rightarrow> string \<Rightarrow> r_StakeholderBody \<Rightarrow> r_Store \<times> r_Response" where
  "post_stakeholder_register store nowId isoDate b =
    (let stakeholder = \<lparr>
           rs_id = (case sb_id b of None \<Rightarrow> nowId | Some i \<Rightarrow> i),
           rs_name = sb_name b, rs_organization = sb_organization b,
           rs_stakeholderType = sb_stakeholderType b, rs_location = sb_location b,
           rs_registrationDate = isoDate,
           rs_status = ''pending_approval'',
           rs_approvedAt = None, rs_approvedBy = None\<rparr>
     in (store\<lparr>stakeholders_json := stakeholders_json store @ [stakeholder]\<rparr>,
         \<lparr>statusCode = 200,
          payload = IdPayload ''Stakeholder registered successfully'' (rs_id stakeholder)\<rparr>))"

definition put_stakeholders_approve ::
  "r_Store \<Rightarrow> string \<Rightarrow> string \<Rightarrow> r_AdminBody \<Rightarrow> r_Store \<times> r_Response" where
  "put_stakeholders_approve store isoDate stakeholderId b =
    (let errors = validateAdminAction b in
     if errors \<noteq> [] then (store, \<lparr>statusCode = 400, payload = ValidationFailed errors\<rparr>)
     else
       (case findIndex (\<lambda>s. rs_id s = stakeholderId) (stakeholders_json store) of
          None \<Rightarrow> (store, \<lparr>statusCode = 404, payload = ErrorMessage ''Stakeholder not found''\<rparr>)
        | Some stakeholderIndex \<Rightarrow>
            let approved = (stakeholders_json store ! stakeholderIndex)
                  \<lparr>rs_status := ''approved'', rs_approvedAt := Some isoDate,
                   rs_approvedBy := ab_adminAddress b\<rparr>
            in (store\<lparr>stakeholders_json :=
                         (stakeholders_json store)[stakeholderIndex := approved]\<rparr>,
                \<lparr>statusCode = 200,
                 payload = StakeholderPayload ''Stakeholder approved successfully'' approved\<rparr>)))"

definition post_mrv_data :: "r_Store \<Rightarrow> string \<Rightarrow> string \<Rightarrow> r_MRVBody \<Rightarrow> r_Store \<times> r_Response" where
  "post_mrv_data store nowId isoDate b =
    (let errors = validateMRVData b in
     if errors \<noteq> [] then (store, \<lparr>statusCode = 400, payload = ValidationFailed errors\<rparr>)
     else
       let newMRVEntry = \<lparr>
             rm_id = (case mb_id b of None \<Rightarrow> nowId | Some i \<Rightarrow> i),
             rm_projectId = mb_projectId b, rm_dataHash = mb_dataHash b,
             rm_coordinates = mb_coordinates b,
             rm_carbonSequestration = mb_carbonSequestration b,
             rm_collectorAddress = mb_collectorAddress b,
             rm_timestamp = isoDate,
             rm_status = ''pending_verification'',
             rm_verified = False,
             rm_verifiedAt = None, rm_verifiedBy = None\<rparr>
       in (store\<lparr>mrv_data_json := mrv_data_json store @ [newMRVEntry]\<rparr>,
           \<lparr>statusCode = 201,
            payload = IdPayload ''MRV data submitted successfully'' (rm_id newMRVEntry)\<rparr>))"

definition put_mrv_data_verify ::
  "r_Store \<Rightarrow> string \<Rightarrow> string \<Rightarrow> r_AdminBody \<Rightarrow> r_Store \<times> r_Response" where
  "put_mrv_data_verify store isoDate dataId b =
    (let errors = validateAdminAction b in
     if errors \<noteq> [] then (store, \<lparr>statusCode = 400, payload = ValidationFailed errors\<rparr>)
     else
       (case findIndex (\<lambda>d. rm_id d = dataId) (mrv_data_json store) of
          None \<Rightarrow> (store, \<lparr>statusCode = 404, payload = ErrorMessage ''MRV data not found''\<rparr>)
        | Some dataIndex \<Rightarrow>
            let verified = (mrv_data_json store ! dataIndex)
                  \<lparr>rm_verified := True, rm_verifiedAt := Some isoDate,
                   rm_verifiedBy := ab_adminAddress b, rm_status := ''verified''\<rparr>
            in (store\<lparr>mrv_data_json := (mrv_data_json store)[dataIndex := verified]\<rparr>,
                \<lparr>statusCode = 200,
                 payload = MRVPayload ''MRV data verified successfully'' verified\<rparr>)))"

text \<open>
  \<open>GET /analytics/overview\<close>: the project and stakeholder counts, each computed from
  the collection when asked.
\<close>

record r_Analytics =
  an_totalProjects :: nat
  an_verifiedProjects :: nat
  an_pendingProjects :: nat
  an_activeProjects :: nat
  an_totalStakeholders :: nat
  an_approvedStakeholders :: nat
  an_pendingStakeholders :: nat

definition get_analytics_overview :: "r_Store \<Rightarrow> r_Analytics" where
  "get_analytics_overview store =
    (let projects = projects_json store; stakeholders = stakeholders_json store in
     \<lparr>an_totalProjects = length projects,
      an_verifiedProjects = length (filter (\<lambda>p. rp_status p = ''verified'') projects),
      an_pendingProjects = length (filter (\<lambda>p. rp_status p = ''pending'') projects),
      an_activeProjects = length (filter (\<lambda>p. rp_status p = ''active'') projects),
      an_totalStakeholders = length stakeholders,
      an_approvedStakeholders = length (filter (\<lambda>s. rs_status s = ''approved'') stakeholders),
      an_pendingStakeholders =
        length (filter (\<lambda>s. rs_status s = ''pending_approval'') stakeholders)\<rparr>)"

datatype r_request =
  POST_projects string string r_ProjectBody
| PUT_projects_status string string r_AdminBody
| POST_stakeholder_register string string r_StakeholderBody
| PUT_stakeholders_approve string string r_AdminBody
| POST_mrv_data string string r_MRVBody
| PUT_mrv_data_verify string string r_AdminBody

fun handle :: "r_Store \<Rightarrow> r_request \<Rightarrow> r_Store \<times> r_Response" where
  "handle store (POST_projects nowId isoDate b) = post_projects store nowId isoDate b"
| "handle store (PUT_projects_status isoDate projectId b) = put_projects_status store isoDate projectId b"
| "handle store (POST_stakeholder_register nowId isoDate b) =
     post_stakeholder_register store nowId isoDate b"
| "handle store (PUT_stakeholders_approve isoDate stakeholderId b) =
     put_stakeholders_approve store isoDate stakeholderId b"
| "handle store (POST_mrv_data nowId isoDate b) = post_mrv_data store nowId isoDate b"
| "handle store (PUT_mrv_data_verify isoDate dataId b) = put_mrv_data_verify store isoDate dataId b"

definition serve :: "r_Store \<Rightarrow> r_request list \<Rightarrow> r_Store" where
  "serve store requests = foldl (\<lambda>st request. fst (handle st request)) store requests"

subsection \<open>Invariants and scenarios\<close>

text \<open>
  What every reachable state of the simplified contract satisfies: storage past the next
  project id is untouched, an existing MRV record names an existing project, an approved
  stakeholder is registered, and the per-project copies of the MRV records are unverified.
\<close>

definition s_inv :: "s_Registry \<Rightarrow> bool" where
  "s_inv s \<longleftrightarrow>
     (\<forall>i. s_nextProjectId s \<le> i \<longrightarrow> s_projects s i = s_zeroProject)
   \<and> (\<forall>d. sm_timestamp (s_mrvDataById s d) \<noteq> 0 \<longrightarrow>
          sm_projectId (s_mrvDataById s d) < s_nextProjectId s)
   \<and> (\<forall>a. ss_approved (s_stakeholders s a) \<longrightarrow> ss_stakeholderAddress (s_stakeholders s a) \<noteq> 0)
   \<and> (\<forall>p. \<forall>d \<in> set (s_projectMRVData s p).
          \<not> sm_verified d \<and> sm_verifier d = 0 \<and> sm_verifiedAt d = 0)"

text \<open>
  A run of the simplified contract: account 1 deploys, account 2 registers, is approved
  and registers project 1, the admin activates it, account 2 submits MRV record 1 and
  the verifier (account 1) verifies it.
\<close>

definition s_scenario :: "(address \<times> nat \<times> s_call) list" where
  "s_scenario =
    [(2, 100, S_registerStakeholder ''Asha'' ''Coastal Trust'' S_NGO ''Kochi''),
     (1, 101, S_approveStakeholder 2),
     (2, 102, S_registerProject ''Mangrove belt'' ''Kochi'' 40 S_Mangrove [] 500),
     (1, 103, S_changeProjectStatus 1 S_Active),
     (2, 104, S_submitMRVData 1 ''Qm01'' ''9.93,76.26'' 1250),
     (1, 105, S_verifyMRVData 1)]"

text \<open>
  The same for the full contract: storage at id 0 and past the project counter is
  untouched, an existing MRV record names an existing project, and the stakeholder ids in
  use do not pass the stakeholder counter.
\<close>

definition inv :: "Registry \<Rightarrow> bool" where
  "inv s \<longleftrightarrow>
     projects s 0 = zeroProject
   \<and> (\<forall>i. projectIdCounter s < i \<longrightarrow> projects s i = zeroProject)
   \<and> (\<forall>d. m_id (mrvData s d) \<noteq> 0 \<longrightarrow>
          1 \<le> m_projectId (mrvData s d) \<and> m_projectId (mrvData s d) \<le> projectIdCounter s)
   \<and> (\<forall>i. stakeholderIdCounter s < i \<longrightarrow> stakeholders s i = zeroStakeholder)
   \<and> (\<forall>a. stakeholderByAddress s a \<le> stakeholderIdCounter s)"

text \<open>
  The simplified contract again, with \<open>verifyProject\<close> as the last call instead of an
  MRV submission.
\<close>

definition s_drift :: "(address \<times> nat \<times> s_call) list" where
  "s_drift =
    [(2, 100, S_registerStakeholder ''Asha'' ''Coastal Trust'' S_NGO ''Kochi''),
     (1, 101, S_approveStakeholder 2),
     (2, 102, S_registerProject ''Mangrove belt'' ''Kochi'' 40 S_Mangrove [] 500),
     (1, 103, S_verifyProject 1)]"

text \<open>
  A run of the full contract up to the submission of MRV record 1 with a sequestration
  of 1250 (12.5 tons: the contract counts hundredths), against the active project 1 of
  stakeholder 1 (account 2).
\<close>

definition scenario_submitted :: "(address \<times> nat \<times> call) list" where
  "scenario_submitted =
    [(2, 100, RegisterStakeholder ''Asha'' ''Coastal Trust'' NGO ''Kochi'' ''asha@example.org'' ''QmProfile''),
     (1, 101, ApproveStakeholder 1),
     (2, 102, RegisterProject ''Mangrove belt'' ''Replanting'' ''Kochi'' ''9.93,76.26'' 4000
                Mangrove [] 500),
     (1, 103, UpdateProjectStatus 1 PS_Active ''approved''),
     (2, 104, SubmitMRVData 1 ''Qm01'' ''9.93,76.26'' ''plots'' 1250 10 3500 [])]"

definition submitted :: Registry where
  "submitted = run (constructor 1) scenario_submitted"

text \<open>
  A session of the REST layer: a project is registered and approved, a stakeholder is
  registered and approved, an MRV entry with a sequestration of 12.5 is submitted
  against the project and verified.
\<close>

definition r_empty :: r_Store where
  "r_empty = \<lparr>projects_json = [], stakeholders_json = [], mrv_data_json = []\<rparr>"

definition r_projectBody :: "string \<Rightarrow> r_ProjectBody" where
  "r_projectBody ecosystemType = \<lparr>b_id = None, b_name = Some ''Mangrove belt'',
     b_location = Some ''Kochi'', b_area = Some 40, b_ecosystemType = Some ecosystemType,
     b_description = None, b_estimatedCredits = Some 500, b_coordinates = Some ''9.93,76.26'',
     b_ownerAddress = None\<rparr>"

definition r_admin :: "string \<Rightarrow> string \<Rightarrow> r_AdminBody" where
  "r_admin action adminAddress = \<lparr>ab_action = Some action, ab_targetId = Some ''1'',
     ab_reason = None, ab_adminAddress = Some adminAddress\<rparr>"

definition r_adminA :: string where
  "r_adminA = ''0xaaaaaaaaaaaaaaaaaaaaaaaaaaaaaaaaaaaaaaaa''"

definition r_adminB :: string where
  "r_adminB = ''0xbbbbbbbbbbbbbbbbbbbbbbbbbbbbbbbbbbbbbbbb''"

definition r_mrvBody :: r_MRVBody where
  "r_mrvBody = \<lparr>mb_id = None, mb_projectId = Some ''p1'', mb_dataHash = Some ''QmHash000001'',
     mb_coordinates = Some ''9.93,76.26'', mb_carbonSequestration = Some (25 / 2),
     mb_collectorAddress = Some ''0xcccccccccccccccccccccccccccccccccccccccc''\<rparr>"

definition r_stakeholderBody :: r_StakeholderBody where
  "r_stakeholderBody = \<lparr>sb_id = None, sb_name = Some ''Asha'',
     sb_organization = Some ''Coastal Trust'', sb_stakeholderType = Some ''NGO'',
     sb_location = Some ''Kochi''\<rparr>"

definition r_scenario :: "r_request list" where
  "r_scenario =
    [POST_projects ''p1'' ''2025-01-01'' (r_projectBody ''mangrove''),
     PUT_projects_status ''2025-01-02'' ''p1'' (r_admin ''approve'' r_adminA),
     POST_stakeholder_register ''s1'' ''2025-01-03'' r_stakeholderBody,
     PUT_stakeholders_approve ''2025-01-04'' ''s1'' (r_admin ''approve'' r_adminA),
     POST_mrv_data ''m1'' ''2025-01-05'' r_mrvBody,
     PUT_mrv_data_verify ''2025-01-06'' ''m1'' (r_admin ''verify'' r_adminA)]"

section \<open>Properties\<close>

subsection \<open>The simplified contract\<close>

lemmas s_defs = s_registerProject_def s_registerStakeholder_def s_approveStakeholder_def
  s_submitMRVData_def s_verifyMRVData_def s_verifyProject_def s_changeProjectStatus_def
  s_pause_def s_unpause_def s_grantVerifierRole_def s_revokeVerifierRole_def
  s_grantRole_def s_revokeRole_def s_renounceRole_def

lemma s_inv_constructor: "s_inv (s_constructor deployer)"
  by (simp add: s_inv_def s_constructor_def s_zeroMRVData_def s_zeroStakeholder_def)

lemma s_zero_id: "sp_id s_zeroProject = 0"
  by (simp add: s_zeroProject_def)

lemma s_existing: "s_inv s \<Longrightarrow> sp_id (s_projects s i) \<noteq> 0 \<Longrightarrow> i < s_nextProjectId s"
  unfolding s_inv_def using s_zero_id by (metis not_le_imp_less)

lemma s_inv_registerProject: "s_inv s \<Longrightarrow> s_registerProject s sender now a b c d e f = Inr s' \<Longrightarrow> s_inv s'"
  by (fastforce simp: s_inv_def s_defs Let_def checked_add_def 
       split: if_splits option.splits intro: less_SucI)

lemma s_inv_registerStakeholder: "s_inv s \<Longrightarrow> s_registerStakeholder s sender now a b c d = Inr s' \<Longrightarrow> s_inv s'"
  by (auto simp: s_inv_def s_defs Let_def checked_add_def checked_sub_def s_zero_id
       split: if_splits option.splits)

lemma s_inv_approveStakeholder: "s_inv s \<Longrightarrow> s_approveStakeholder s sender a = Inr s' \<Longrightarrow> s_inv s'"
  by (auto simp: s_inv_def s_defs Let_def checked_add_def checked_sub_def s_zero_id
       split: if_splits option.splits)

lemma s_inv_submitMRVData: "s_inv s \<Longrightarrow> s_submitMRVData s sender now a b c d = Inr s' \<Longrightarrow> s_inv s'"
  apply (frule s_existing[where i=a])
  apply (auto simp: s_inv_def s_defs Let_def checked_add_def checked_sub_def s_zero_id
       split: if_splits option.splits)
  done

lemma s_data_project:
  "s_inv s \<Longrightarrow> sm_timestamp (s_mrvDataById s d) \<noteq> 0 \<Longrightarrow>
     sm_projectId (s_mrvDataById s d) < s_nextProjectId s"
  by (simp add: s_inv_def)

lemma s_inv_verifyMRVData: "s_inv s \<Longrightarrow> s_verifyMRVData s sender now a = Inr s' \<Longrightarrow> s_inv s'"
  apply (auto simp: s_inv_def s_defs Let_def checked_add_def checked_sub_def s_zero_id
       split: if_splits option.splits)
  apply (blast dest: leD)
  done

lemma s_inv_verifyProject: "s_inv s \<Longrightarrow> s_verifyProject s sender now a = Inr s' \<Longrightarrow> s_inv s'"
  apply (frule s_existing[where i=a])
  apply (auto simp: s_inv_def s_defs Let_def checked_add_def checked_sub_def s_zero_id
       split: if_splits option.splits)
  done

lemma s_inv_changeProjectStatus: "s_inv s \<Longrightarrow> s_changeProjectStatus s sender now a b = Inr s' \<Longrightarrow> s_inv s'"
  apply (frule s_existing[where i=a])
  apply (auto simp: s_inv_def s_defs Let_def checked_add_def checked_sub_def s_zero_id
       split: if_splits option.splits)
  done

lemma s_inv_roles: "s_inv s \<Longrightarrow> s_pause s sender = Inr s' \<or> s_unpause s sender = Inr s' \<or>
   s_grantVerifierRole s sender a = Inr s' \<or> s_revokeVerifierRole s sender a = Inr s' \<or>
   s_grantRole s sender r a = Inr s' \<or> s_revokeRole s sender r a = Inr s' \<or>
   s_renounceRole s sender r a = Inr s'  \<Longrightarrow> s_inv s'"
  apply (auto simp: s_inv_def s_defs Let_def 
       split: if_splits option.splits)
  done

lemma s_inv_exec: "s_inv s \<Longrightarrow> s_exec s sender now c = Inr s' \<Longrightarrow> s_inv s'"
  by (cases c) (auto intro: s_inv_registerProject s_inv_registerStakeholder s_inv_approveStakeholder s_inv_submitMRVData s_inv_verifyMRVData s_inv_verifyProject s_inv_changeProjectStatus s_inv_roles)

lemma s_reachable_inv: "s_reachable s \<Longrightarrow> s_inv s"
  by (induction rule: s_reachable.induct) (auto intro: s_inv_constructor s_inv_exec)


lemma s_transact_reachable: "s_reachable s \<Longrightarrow> s_reachable (s_transact s tx)"
  by (cases tx) (auto simp: s_transact_def split: sum.splits intro: s_step)

lemma s_run_reachable: "s_reachable s \<Longrightarrow> s_reachable (s_run s txs)"
  unfolding s_run_def by (induction txs arbitrary: s) (simp_all add: s_transact_reachable)


lemma s_verifyMRVData_frame:
  assumes "s_verifyMRVData s sender now dataId = Inr s'"
  shows "s_projectMRVData s' = s_projectMRVData s"
    and "s_mrvDataById s' = (s_mrvDataById s)(dataId :=
           (s_mrvDataById s dataId)\<lparr>sm_verified := True, sm_verifier := sender, sm_verifiedAt := now\<rparr>)"
    and "s_projects s' = (s_projects s)(sm_projectId (s_mrvDataById s dataId) :=
           (s_projects s (sm_projectId (s_mrvDataById s dataId)))
             \<lparr>sp_actualCredits := sp_actualCredits (s_projects s (sm_projectId (s_mrvDataById s dataId)))
                + sm_carbonSequestration (s_mrvDataById s dataId)\<rparr>)"
    and "s_totalCarbonSequestered s' =
           s_totalCarbonSequestered s + sm_carbonSequestration (s_mrvDataById s dataId)"
    and "s_roles s' = s_roles s" and "s_paused s' = s_paused s"
    and "s_stakeholders s' = s_stakeholders s"
    and "s_nextProjectId s' = s_nextProjectId s" and "s_nextMRVDataId s' = s_nextMRVDataId s"
    and "s_totalProjects s' = s_totalProjects s"
    and "s_totalVerifiedProjects s' = s_totalVerifiedProjects s"
    and "s_roles s VERIFIER_ROLE sender" and "sm_timestamp (s_mrvDataById s dataId) \<noteq> 0"
    and "\<not> sm_verified (s_mrvDataById s dataId)"
  using assms
  by (auto simp: s_verifyMRVData_def Let_def checked_add_def split: if_splits)

lemma s_credits_other:
  assumes "s_inv s" and "s_exec s sender now c = Inr s'" and "\<forall>dataId. c \<noteq> S_verifyMRVData dataId"
  shows "sp_actualCredits (s_projects s' p) = sp_actualCredits (s_projects s p)"
proof (cases c)
  case (S_registerProject name location area eco docs est)
  have "sp_actualCredits (s_projects s (s_nextProjectId s)) = 0"
    using assms(1) by (simp add: s_inv_def s_zeroProject_def)
  then show ?thesis
    using assms(2) S_registerProject
    by (auto simp: s_registerProject_def Let_def split: if_splits option.splits)
next
  case (S_verifyMRVData dataId)
  then show ?thesis using assms(3) by simp
qed (use assms(2) in \<open>auto simp: s_defs Let_def split: if_splits option.splits\<close>)

lemma s_credits_step:
  assumes "s_reachable s" and "s_exec s sender now c = Inr s'"
  shows "sp_actualCredits (s_projects s p) \<le> sp_actualCredits (s_projects s' p)"
    and "sp_actualCredits (s_projects s' p) \<noteq> sp_actualCredits (s_projects s p) \<Longrightarrow>
           \<exists>dataId. c = S_verifyMRVData dataId \<and> sm_projectId (s_mrvDataById s dataId) = p
             \<and> \<not> sm_verified (s_mrvDataById s dataId) \<and> sm_verified (s_mrvDataById s' dataId)
             \<and> sp_actualCredits (s_projects s' p) =
                 sp_actualCredits (s_projects s p) + sm_carbonSequestration (s_mrvDataById s dataId)"
proof -
  have i: "s_inv s" using assms(1) by (rule s_reachable_inv)
  show "sp_actualCredits (s_projects s p) \<le> sp_actualCredits (s_projects s' p)"
  proof (cases "\<exists>dataId. c = S_verifyMRVData dataId")
    case True
    then obtain dataId where c: "c = S_verifyMRVData dataId" by blast
    with assms(2) have v: "s_verifyMRVData s sender now dataId = Inr s'" by simp
    show ?thesis by (simp add: s_verifyMRVData_frame(3)[OF v])
  next
    case False
    then show ?thesis using s_credits_other[OF i assms(2)] by simp
  qed
  assume changed: "sp_actualCredits (s_projects s' p) \<noteq> sp_actualCredits (s_projects s p)"
  then obtain dataId where c: "c = S_verifyMRVData dataId"
    using s_credits_other[OF i assms(2)] by blast
  with assms(2) have v: "s_verifyMRVData s sender now dataId = Inr s'" by simp
  note f = s_verifyMRVData_frame[OF v]
  have p: "sm_projectId (s_mrvDataById s dataId) = p"
    using changed by (auto simp: f(3) split: if_splits)
  show "\<exists>dataId. c = S_verifyMRVData dataId \<and> sm_projectId (s_mrvDataById s dataId) = p
             \<and> \<not> sm_verified (s_mrvDataById s dataId) \<and> sm_verified (s_mrvDataById s' dataId)
             \<and> sp_actualCredits (s_projects s' p) =
                 sp_actualCredits (s_projects s p) + sm_carbonSequestration (s_mrvDataById s dataId)"
    using c p f(14) by (intro exI[of _ dataId]) (simp add: f(2) f(3))
qed

lemma s_credits_run:
  "s_reachable s \<Longrightarrow> sp_actualCredits (s_projects s p) \<le> sp_actualCredits (s_projects (s_run s txs) p)"
proof (induction txs arbitrary: s)
  case Nil
  then show ?case by (simp add: s_run_def)
next
  case (Cons tx txs)
  obtain sender now c where tx: "tx = (sender, now, c)" by (cases tx)
  have r: "s_reachable (s_transact s tx)" using Cons.prems by (rule s_transact_reachable)
  have "sp_actualCredits (s_projects s p) \<le> sp_actualCredits (s_projects (s_transact s tx) p)"
    using s_credits_step(1)[OF Cons.prems] by (auto simp: tx s_transact_def split: sum.splits)
  also have "\<dots> \<le> sp_actualCredits (s_projects (s_run (s_transact s tx) txs) p)"
    using Cons.IH[OF r] .
  finally show ?case by (simp add: s_run_def)
qed



lemma s_verify_twice:
  assumes "sm_verified (s_mrvDataById s dataId)"
  shows "\<exists>e. s_verifyMRVData s sender now dataId = Inl e"
    and "s_roles s VERIFIER_ROLE sender \<Longrightarrow> sm_timestamp (s_mrvDataById s dataId) \<noteq> 0 \<Longrightarrow>
           s_verifyMRVData s sender now dataId = Inl (Revert ''Data already verified'')"
  using assms by (simp_all add: s_verifyMRVData_def)

lemma s_submit_only_active:
  "s_submitMRVData s sender now projectId dataHash coordinates cs = Inr s' \<Longrightarrow>
     sp_id (s_projects s projectId) \<noteq> 0 \<and> sp_status (s_projects s projectId) = S_Active"
  by (simp add: s_submitMRVData_def split: if_splits)

lemma s_register_invalid:
  assumes "name = [] \<or> location = [] \<or> area = 0"
  shows "s_registerProject s sender now name location area eco docs est \<in>
           {Inl (Revert ''Pausable: paused''), Inl (Revert ''Project name required''),
            Inl (Revert ''Project location required''),
            Inl (Revert ''Project area must be greater than zero'')}"
  using assms by (auto simp: s_registerProject_def)

lemmas s_eval = s_run_def s_transact_def s_defs s_constructor_def
      s_zeroStakeholder_def s_zeroProject_def s_zeroMRVData_def checked_add_def checked_sub_def
      UINT_MAX_def Let_def

lemma s_scenario_facts:
  "s_getProjectMRVData (s_run (s_constructor 1) s_scenario) 1 =
     [\<lparr>sm_projectId = 1, sm_collector = 2, sm_timestamp = 104, sm_dataHash = ''Qm01'',
       sm_coordinates = ''9.93,76.26'', sm_carbonSequestration = 1250, sm_verified = False,
       sm_verifier = 0, sm_verifiedAt = 0\<rparr>]"
  "s_mrvDataById (s_run (s_constructor 1) s_scenario) 1 =
     \<lparr>sm_projectId = 1, sm_collector = 2, sm_timestamp = 104, sm_dataHash = ''Qm01'',
       sm_coordinates = ''9.93,76.26'', sm_carbonSequestration = 1250, sm_verified = True,
       sm_verifier = 1, sm_verifiedAt = 105\<rparr>"
  "sp_actualCredits (s_projects (s_run (s_constructor 1) s_scenario) 1) = 1250"
  by (simp_all add: s_scenario_def s_getProjectMRVData_def s_eval)

subsection \<open>The full contract\<close>

lemmas role_defs = setRole_def grantVerifierRole_def revokeVerifierRole_def
  grantDataCollectorRole_def revokeDataCollectorRole_def pauseContract_def unpauseContract_def
  grantRole_def revokeRole_def renounceRole_def updateVerificationCriteria_def

lemma verifyMRVData_guards:
  assumes "verifyMRVData s sender now d st notes = Inr s'"
  shows "roles s VERIFIER_ROLE sender" and "\<not> paused s" and "m_id (mrvData s d) \<noteq> 0"
    and "m_status (mrvData s d) = MRV_Submitted \<or> m_status (mrvData s d) = MRV_UnderReview"
    and "st \<noteq> MRV_Submitted"
  using assms by (simp_all add: verifyMRVData_def split: if_splits)

lemma verifyMRVData_frame:
  assumes "verifyMRVData s sender now d st notes = Inr s'"
  shows "projectIdCounter s' = projectIdCounter s"
    and "stakeholderIdCounter s' = stakeholderIdCounter s"
    and "mrvDataIdCounter s' = mrvDataIdCounter s"
    and "stakeholderByAddress s' = stakeholderByAddress s"
    and "roles s' = roles s" and "paused s' = paused s"
    and "projectMRVData s' = projectMRVData s"
    and "totalProjects s' = totalProjects s"
    and "totalVerifiedProjects s' = totalVerifiedProjects s"
    and "mrvData s' = (mrvData s)(d := (mrvData s d)\<lparr>m_status := st, m_verifier := sender,
           m_verifiedAt := now, m_verificationNotes := notes, m_isValid := (st = MRV_Verified)\<rparr>)"
  using assms
  by (auto simp: verifyMRVData_def updateStakeholderReputation_def Let_def
        split: if_splits option.splits prod.splits)

lemma verifyMRVData_projects:
  assumes "verifyMRVData s sender now d st notes = Inr s'"
  shows "projects s' =
    (if st = MRV_Verified
     then (projects s)(m_projectId (mrvData s d) := (projects s (m_projectId (mrvData s d)))
       \<lparr>p_actualCarbonCredits := p_actualCarbonCredits (projects s (m_projectId (mrvData s d)))
           + m_carbonSequestration (mrvData s d),
        p_totalAreaRestored := p_totalAreaRestored (projects s (m_projectId (mrvData s d)))
           + m_areaMonitored (mrvData s d)\<rparr>)
     else projects s)"
  using assms
  by (auto simp: verifyMRVData_def updateStakeholderReputation_def Let_def checked_add_def
        split: if_splits option.splits prod.splits)

lemma verifyMRVData_stakeholders:
  assumes "verifyMRVData s sender now d st notes = Inr s'"
    and "sid = stakeholderByAddress s (p_owner (projects s (m_projectId (mrvData s d))))"
  shows "stakeholders s' =
    (if sid \<noteq> 0 \<and> st = MRV_Verified
     then (stakeholders s)(sid := (stakeholders s sid)
       \<lparr>sh_reputationScore := min 1000 (sh_reputationScore (stakeholders s sid) + 10)\<rparr>)
     else if sid \<noteq> 0 \<and> st = MRV_Rejected
     then (stakeholders s)(sid := (stakeholders s sid)
       \<lparr>sh_reputationScore := sh_reputationScore (stakeholders s sid) - 20\<rparr>)
     else stakeholders s)"
  using assms
  by (auto simp: verifyMRVData_def updateStakeholderReputation_def Let_def checked_add_def min_def
        split: if_splits option.splits prod.splits)

lemma inv_constructor: "inv (constructor deployer)"
  by (simp add: inv_def constructor_def zeroMRVData_def)

lemma zeroProject_id: "p_id zeroProject = 0"
  by (simp add: zeroProject_def)

lemma zeroStakeholder_id: "sh_id zeroStakeholder = 0" "\<not> sh_isApproved zeroStakeholder"
  by (simp_all add: zeroStakeholder_def)

lemma existing_project:
  assumes "inv s" and "p_id (projects s i) \<noteq> 0"
  shows "1 \<le> i \<and> i \<le> projectIdCounter s"
proof -
  have "i \<noteq> 0"
  proof
    assume "i = 0"
    with assms show False by (simp add: inv_def zeroProject_id)
  qed
  moreover have "\<not> projectIdCounter s < i"
  proof
    assume "projectIdCounter s < i"
    with assms show False by (simp add: inv_def zeroProject_id)
  qed
  ultimately show ?thesis by simp
qed

lemma existing_stakeholder:
  assumes "inv s" and "sh_id (stakeholders s i) \<noteq> 0 \<or> sh_isApproved (stakeholders s i)"
  shows "i \<le> stakeholderIdCounter s"
proof -
  have "\<not> stakeholderIdCounter s < i"
  proof
    assume "stakeholderIdCounter s < i"
    with assms show False by (simp add: inv_def zeroStakeholder_id)
  qed
  then show ?thesis by simp
qed

lemma inv_registerStakeholder:
  "inv s \<Longrightarrow> registerStakeholder s sender now a b c d e f = Inr s' \<Longrightarrow> inv s'"
  by (auto simp: inv_def registerStakeholder_def Let_def le_SucI split: if_splits option.splits)

lemma inv_approveStakeholder:
  assumes "inv s" and "approveStakeholder s sender now i = Inr s'"
  shows "inv s'"
proof -
  have "sh_id (stakeholders s i) \<noteq> 0"
    using assms(2) by (simp add: approveStakeholder_def split: if_splits)
  then have "i \<le> stakeholderIdCounter s" using assms(1) existing_stakeholder by blast
  then show ?thesis
    using assms
    by (auto simp: inv_def approveStakeholder_def Let_def split: if_splits option.splits)
qed

lemma inv_registerProject:
  "inv s \<Longrightarrow> registerProject s sender now a b c d e f g h = Inr s' \<Longrightarrow> inv s'"
  by (auto simp: inv_def registerProject_def Let_def le_SucI zeroStakeholder_id
        split: if_splits option.splits)

lemma inv_updateProjectStatus:
  assumes "inv s" and "updateProjectStatus s sender now i st r = Inr s'"
  shows "inv s'"
proof -
  have "p_id (projects s i) \<noteq> 0"
    using assms(2) by (simp add: updateProjectStatus_def split: if_splits)
  then have "1 \<le> i \<and> i \<le> projectIdCounter s" using assms(1) existing_project by blast
  then show ?thesis
    using assms
    by (auto simp: inv_def updateProjectStatus_def Let_def split: if_splits option.splits)
qed

lemma inv_submitMRVData:
  assumes "inv s" and "submitMRVData s sender now i a b c d e f g = Inr s'"
  shows "inv s'"
proof -
  have "p_id (projects s i) \<noteq> 0"
    using assms(2) by (simp add: submitMRVData_def split: if_splits)
  then have "1 \<le> i \<and> i \<le> projectIdCounter s" using assms(1) existing_project by blast
  then show ?thesis
    using assms
    by (auto simp: inv_def submitMRVData_def Let_def split: if_splits option.splits)
qed

lemma inv_verifyMRVData:
  assumes "inv s" and "verifyMRVData s sender now d st notes = Inr s'"
  shows "inv s'"
proof -
  note g = verifyMRVData_guards[OF assms(2)]
  note f = verifyMRVData_frame[OF assms(2)]
  note p = verifyMRVData_projects[OF assms(2)]
  note sh = verifyMRVData_stakeholders[OF assms(2) refl]
  let ?pid = "m_projectId (mrvData s d)"
  let ?sid = "stakeholderByAddress s (p_owner (projects s ?pid))"
  have pid: "1 \<le> ?pid" "?pid \<le> projectIdCounter s" using assms(1) g(3) by (simp_all add: inv_def)
  have sid: "?sid \<le> stakeholderIdCounter s" using assms(1) by (simp add: inv_def)
  have 1: "projects s' 0 = zeroProject"
    using assms(1) pid by (auto simp: inv_def p)
  have 2: "\<forall>i. projectIdCounter s' < i \<longrightarrow> projects s' i = zeroProject"
    using assms(1) pid by (auto simp: inv_def p f(1))
  have 3: "\<forall>d. m_id (mrvData s' d) \<noteq> 0 \<longrightarrow>
          1 \<le> m_projectId (mrvData s' d) \<and> m_projectId (mrvData s' d) \<le> projectIdCounter s'"
    using assms(1) pid by (auto simp: inv_def f(1) f(10))
  have 4: "\<forall>i. stakeholderIdCounter s' < i \<longrightarrow> stakeholders s' i = zeroStakeholder"
  proof (intro allI impI)
    fix i
    assume i: "stakeholderIdCounter s' < i"
    then have "i \<noteq> ?sid" using sid f(2) by auto
    then have "stakeholders s' i = stakeholders s i" by (simp add: sh)
    then show "stakeholders s' i = zeroStakeholder"
      using assms(1) i by (simp add: inv_def f(2))
  qed
  have 5: "\<forall>a. stakeholderByAddress s' a \<le> stakeholderIdCounter s'"
    using assms(1) by (simp add: inv_def f(2) f(4))
  show ?thesis unfolding inv_def using 1 2 3 4 5 by (intro conjI)
qed

lemma inv_deactivateProject:
  assumes "inv s" and "deactivateProject s sender now i = Inr s'"
  shows "inv s'"
proof -
  have "p_id (projects s i) \<noteq> 0"
    using assms(2) by (simp add: deactivateProject_def split: if_splits)
  then have "1 \<le> i \<and> i \<le> projectIdCounter s" using assms(1) existing_project by blast
  then show ?thesis
    using assms by (auto simp: inv_def deactivateProject_def split: if_splits)
qed

lemma inv_deactivateStakeholder:
  assumes "inv s" and "deactivateStakeholder s sender i = Inr s'"
  shows "inv s'"
proof -
  have "sh_id (stakeholders s i) \<noteq> 0"
    using assms(2) by (simp add: deactivateStakeholder_def split: if_splits)
  then have "i \<le> stakeholderIdCounter s" using assms(1) existing_stakeholder by blast
  then show ?thesis
    using assms by (auto simp: inv_def deactivateStakeholder_def Let_def split: if_splits)
qed

lemma inv_exec: "inv s \<Longrightarrow> exec s sender now c = Inr s' \<Longrightarrow> inv s'"
proof (induction s sender now c rule: exec.induct)
  case (1 s sender now name org ty location contact profile)
  then show ?case by (auto intro: inv_registerStakeholder)
next
  case (2 s sender now stakeholderId)
  then show ?case by (auto intro: inv_approveStakeholder)
next
  case (3 s sender now name descr location coords area eco docs est)
  then show ?case by (auto intro: inv_registerProject)
next
  case (4 s sender now projectId st reason)
  then show ?case by (auto intro: inv_updateProjectStatus)
next
  case (5 s sender now projectId dataHash coords meth cs bio area atts)
  then show ?case by (auto intro: inv_submitMRVData)
next
  case (6 s sender now dataId st vn)
  then show ?case by (auto intro: inv_verifyMRVData)
next
  case (14 s sender now projectId)
  then show ?case by (auto intro: inv_deactivateProject)
next
  case (15 s sender now stakeholderId)
  then show ?case by (auto intro: inv_deactivateStakeholder)
qed (auto simp: inv_def role_defs split: if_splits)

lemma reachable_inv: "reachable s \<Longrightarrow> inv s"
  by (induction rule: reachable.induct) (auto intro: inv_constructor inv_exec)

lemma credits_other:
  assumes "inv s" and "exec s sender now c = Inr s'"
    and "\<forall>dataId vn. c \<noteq> VerifyMRVData dataId MRV_Verified vn"
  shows "p_actualCarbonCredits (projects s' p) = p_actualCarbonCredits (projects s p)"
proof (cases c)
  case (RegisterProject name descr location coords area eco docs est)
  have "p_actualCarbonCredits (projects s (projectIdCounter s + 1)) = 0"
    using assms(1) by (simp add: inv_def zeroProject_def)
  then show ?thesis
    using assms(2) RegisterProject
    by (auto simp: registerProject_def Let_def split: if_splits option.splits)
next
  case (VerifyMRVData dataId st vn)
  then have "st \<noteq> MRV_Verified" using assms(3) by blast
  moreover have "verifyMRVData s sender now dataId st vn = Inr s'"
    using assms(2) VerifyMRVData by simp
  ultimately show ?thesis by (simp add: verifyMRVData_projects)
next
  case (RegisterStakeholder a b c d e f)
  then show ?thesis using assms(2)
    by (auto simp: registerStakeholder_def Let_def split: if_splits option.splits)
next
  case (ApproveStakeholder i)
  then show ?thesis using assms(2)
    by (auto simp: approveStakeholder_def Let_def split: if_splits option.splits)
next
  case (UpdateProjectStatus i st r)
  then show ?thesis using assms(2)
    by (auto simp: updateProjectStatus_def Let_def split: if_splits option.splits)
next
  case (SubmitMRVData i a b c d e f g)
  then show ?thesis using assms(2)
    by (auto simp: submitMRVData_def Let_def split: if_splits option.splits)
next
  case (DeactivateProject i)
  then show ?thesis using assms(2)
    by (auto simp: deactivateProject_def split: if_splits)
next
  case (DeactivateStakeholder i)
  then show ?thesis using assms(2)
    by (auto simp: deactivateStakeholder_def Let_def split: if_splits)
qed (use assms(2) in \<open>auto simp: role_defs split: if_splits\<close>)

lemma credits_step:
  assumes "reachable s" and "exec s sender now c = Inr s'"
  shows "p_actualCarbonCredits (projects s p) \<le> p_actualCarbonCredits (projects s' p)"
    and "p_actualCarbonCredits (projects s' p) \<noteq> p_actualCarbonCredits (projects s p) \<Longrightarrow>
           \<exists>dataId vn. c = VerifyMRVData dataId MRV_Verified vn
             \<and> m_projectId (mrvData s dataId) = p
             \<and> (m_status (mrvData s dataId) = MRV_Submitted
                  \<or> m_status (mrvData s dataId) = MRV_UnderReview)
             \<and> m_status (mrvData s' dataId) = MRV_Verified
             \<and> p_actualCarbonCredits (projects s' p) =
                 p_actualCarbonCredits (projects s p) + m_carbonSequestration (mrvData s dataId)"
proof -
  have i: "inv s" using assms(1) by (rule reachable_inv)
  show "p_actualCarbonCredits (projects s p) \<le> p_actualCarbonCredits (projects s' p)"
  proof (cases "\<exists>dataId vn. c = VerifyMRVData dataId MRV_Verified vn")
    case True
    then obtain dataId vn where c: "c = VerifyMRVData dataId MRV_Verified vn" by blast
    with assms(2) have v: "verifyMRVData s sender now dataId MRV_Verified vn = Inr s'" by simp
    show ?thesis by (simp add: verifyMRVData_projects[OF v])
  next
    case False
    then show ?thesis using credits_other[OF i assms(2)] by simp
  qed
  assume changed: "p_actualCarbonCredits (projects s' p) \<noteq> p_actualCarbonCredits (projects s p)"
  then obtain dataId vn where c: "c = VerifyMRVData dataId MRV_Verified vn"
    using credits_other[OF i assms(2)] by blast
  with assms(2) have v: "verifyMRVData s sender now dataId MRV_Verified vn = Inr s'" by simp
  note g = verifyMRVData_guards[OF v]
  note f = verifyMRVData_frame[OF v]
  note pr = verifyMRVData_projects[OF v]
  have p: "m_projectId (mrvData s dataId) = p"
    using changed by (auto simp: pr split: if_splits)
  show "\<exists>dataId vn. c = VerifyMRVData dataId MRV_Verified vn
             \<and> m_projectId (mrvData s dataId) = p
             \<and> (m_status (mrvData s dataId) = MRV_Submitted
                  \<or> m_status (mrvData s dataId) = MRV_UnderReview)
             \<and> m_status (mrvData s' dataId) = MRV_Verified
             \<and> p_actualCarbonCredits (projects s' p) =
                 p_actualCarbonCredits (projects s p) + m_carbonSequestration (mrvData s dataId)"
    using c p g(4) by (intro exI[of _ dataId] exI[of _ vn]) (simp add: f(10) pr)
qed

lemma transact_reachable: "reachable s \<Longrightarrow> reachable (transact s tx)"
  by (cases tx) (auto simp: transact_def split: sum.splits intro: step)

lemma run_reachable: "reachable s \<Longrightarrow> reachable (run s txs)"
  unfolding run_def by (induction txs arbitrary: s) (simp_all add: transact_reachable)

lemma credits_run:
  "reachable s \<Longrightarrow>
     p_actualCarbonCredits (projects s p) \<le> p_actualCarbonCredits (projects (run s txs) p)"
proof (induction txs arbitrary: s)
  case Nil
  then show ?case by (simp add: run_def)
next
  case (Cons tx txs)
  obtain sender now c where tx: "tx = (sender, now, c)" by (cases tx)
  have r: "reachable (transact s tx)" using Cons.prems by (rule transact_reachable)
  have "p_actualCarbonCredits (projects s p) \<le> p_actualCarbonCredits (projects (transact s tx) p)"
    using credits_step(1)[OF Cons.prems] by (auto simp: tx transact_def split: sum.splits)
  also have "\<dots> \<le> p_actualCarbonCredits (projects (run (transact s tx) txs) p)"
    using Cons.IH[OF r] .
  finally show ?case by (simp add: run_def)
qed

text \<open>
  The counter \<open>totalVerifiedProjects\<close> of the full contract: \<open>updateProjectStatus\<close>
  reads the old status before it writes the new one, so the counter follows the number
  of verified projects in every reachable state.
\<close>

lemma filter_upt_update:
  assumes "a \<le> i" and "i < b" and "\<forall>j. j \<noteq> i \<longrightarrow> Q j = P j"
  shows "length (filter Q [a..<b]) + (if P i then 1 else 0)
           = length (filter P [a..<b]) + (if Q i then 1 else 0)"
proof -
  have split: "[a..<b] = [a..<i] @ i # [Suc i..<b]"
    using assms(1,2) by (metis le_add_diff_inverse less_imp_le_nat upt_add_eq_append upt_conv_Cons)
  have "filter Q [a..<i] = filter P [a..<i]"
    using assms(3) by (intro filter_cong) auto
  moreover have "filter Q [Suc i..<b] = filter P [Suc i..<b]"
    using assms(3) by (intro filter_cong) auto
  ultimately show ?thesis by (simp add: split)
qed

lemma countVerified_cong:
  assumes "projectIdCounter s' = projectIdCounter s"
    and "\<forall>j. p_status (projects s' j) = p_status (projects s j)"
  shows "countVerified s' = countVerified s"
  using assms by (simp add: countVerified_def)

lemma updateProjectStatus_effect:
  assumes "updateProjectStatus s sender now i st r = Inr s'"
  shows "projectIdCounter s' = projectIdCounter s"
    and "p_status (projects s' j) = (if j = i then st else p_status (projects s j))"
    and "p_id (projects s i) \<noteq> 0"
    and "p_status (projects s i) \<noteq> st"
    and "int (totalVerifiedProjects s') = int (totalVerifiedProjects s)
           + (if st = PS_Verified then 1 else 0)
           - (if p_status (projects s i) = PS_Verified then 1 else 0)"
  using assms
  by (auto simp: updateProjectStatus_def Let_def checked_add_def checked_sub_def
        split: if_splits)

lemma registerProject_effect:
  assumes "registerProject s sender now a b c d e f g h = Inr s'"
  shows "projectIdCounter s' = projectIdCounter s + 1"
    and "p_status (projects s' j) =
           (if j = projectIdCounter s + 1 then PS_Pending else p_status (projects s j))"
    and "totalVerifiedProjects s' = totalVerifiedProjects s"
  using assms
  by (auto simp: registerProject_def Let_def split: if_splits option.splits)

lemma status_frame:
  assumes "exec s sender now c = Inr s'"
    and "\<forall>i st r. c \<noteq> UpdateProjectStatus i st r"
    and "\<forall>a b c' d e f g h. c \<noteq> RegisterProject a b c' d e f g h"
  shows "projectIdCounter s' = projectIdCounter s"
    and "p_status (projects s' j) = p_status (projects s j)"
    and "totalVerifiedProjects s' = totalVerifiedProjects s"
proof -
  have "projectIdCounter s' = projectIdCounter s
      \<and> p_status (projects s' j) = p_status (projects s j)
      \<and> totalVerifiedProjects s' = totalVerifiedProjects s"
  proof (cases c)
    case (VerifyMRVData d st vn)
    then have v: "verifyMRVData s sender now d st vn = Inr s'" using assms(1) by simp
    show ?thesis
      by (simp add: verifyMRVData_frame(1,9)[OF v] verifyMRVData_projects[OF v])
  next
    case (RegisterStakeholder a b c d e f)
    then show ?thesis using assms(1)
      by (auto simp: registerStakeholder_def Let_def split: if_splits option.splits)
  next
    case (ApproveStakeholder i)
    then show ?thesis using assms(1)
      by (auto simp: approveStakeholder_def Let_def split: if_splits option.splits)
  next
    case (SubmitMRVData i a b c d e f g)
    then show ?thesis using assms(1)
      by (auto simp: submitMRVData_def Let_def split: if_splits option.splits)
  next
    case (DeactivateProject i)
    then show ?thesis using assms(1)
      by (auto simp: deactivateProject_def split: if_splits)
  next
    case (DeactivateStakeholder i)
    then show ?thesis using assms(1)
      by (auto simp: deactivateStakeholder_def Let_def split: if_splits)
  next
    case (UpdateProjectStatus i st r)
    then show ?thesis using assms(2) by blast
  next
    case (RegisterProject a b c' d e f g h)
    then show ?thesis using assms(3) by blast
  qed (use assms(1) in \<open>auto simp: role_defs split: if_splits\<close>)
  then show "projectIdCounter s' = projectIdCounter s"
    and "p_status (projects s' j) = p_status (projects s j)"
    and "totalVerifiedProjects s' = totalVerifiedProjects s"
    by simp_all
qed

lemma totalVerifiedProjects_counts:
  "reachable s \<Longrightarrow> totalVerifiedProjects s = countVerified s"
proof (induction rule: reachable.induct)
  case (init deployer)
  show ?case by (simp add: constructor_def countVerified_def)
next
  case (step s sender now c s')
  have i: "inv s" using step.hyps(1) by (rule reachable_inv)
  consider (update) j st r where "c = UpdateProjectStatus j st r"
    | (register) a b c' d e f g h where "c = RegisterProject a b c' d e f g h"
    | (other) "\<forall>i st r. c \<noteq> UpdateProjectStatus i st r"
        "\<forall>a b c' d e f g h. c \<noteq> RegisterProject a b c' d e f g h"
    by blast
  then show ?case
  proof cases
    case update
    then have u: "updateProjectStatus s sender now j st r = Inr s'" using step.hyps(2) by simp
    note e = updateProjectStatus_effect[OF u]
    have range: "1 \<le> j" "j < projectIdCounter s + 1"
      using existing_project[OF i e(3)] by simp_all
    define P where "P = (\<lambda>k. p_status (projects s k) = PS_Verified)"
    define Q where "Q = (\<lambda>k. p_status (projects s' k) = PS_Verified)"
    have cv: "countVerified s = length (filter P [1..<projectIdCounter s + 1])"
      "countVerified s' = length (filter Q [1..<projectIdCounter s + 1])"
      by (simp_all add: countVerified_def P_def Q_def e(1))
    have same: "\<forall>k. k \<noteq> j \<longrightarrow> Q k = P k" by (simp add: P_def Q_def e(2))
    have at: "P j \<longleftrightarrow> p_status (projects s j) = PS_Verified" "Q j \<longleftrightarrow> st = PS_Verified"
      by (simp_all add: P_def Q_def e(2))
    have "length (filter Q [1..<projectIdCounter s + 1]) + (if P j then 1 else 0)
          = length (filter P [1..<projectIdCounter s + 1]) + (if Q j then 1 else 0)"
      using range same by (rule filter_upt_update)
    then have "int (countVerified s') = int (countVerified s)
           + (if st = PS_Verified then 1 else 0)
           - (if p_status (projects s j) = PS_Verified then 1 else 0)"
      unfolding cv at by (simp split: if_splits)
    then show ?thesis using e(5) step.IH by simp
  next
    case register
    then have r: "registerProject s sender now a b c' d e f g h = Inr s'"
      using step.hyps(2) by simp
    note e = registerProject_effect[OF r]
    define n where "n = projectIdCounter s + 1"
    define P where "P = (\<lambda>k. p_status (projects s k) = PS_Verified)"
    define Q where "Q = (\<lambda>k. p_status (projects s' k) = PS_Verified)"
    have fresh: "\<not> Q n" by (simp add: Q_def n_def e(2))
    have old: "filter Q [1..<n] = filter P [1..<n]"
      by (rule filter_cong) (auto simp: Q_def P_def n_def e(2))
    have cs: "countVerified s = length (filter P [1..<n])"
      by (simp add: countVerified_def P_def n_def)
    have "countVerified s' = length (filter Q [1..<Suc n])"
      by (simp add: countVerified_def Q_def n_def e(1))
    also have "[1..<Suc n] = [1..<n] @ [n]"
      by (simp add: n_def)
    also have "length (filter Q ([1..<n] @ [n])) = length (filter Q [1..<n])"
      using fresh by simp
    finally have "countVerified s' = countVerified s"
      unfolding old cs .
    then show ?thesis using e(3) step.IH by simp
  next
    case other
    note f = status_frame[OF step.hyps(2) other]
    have "countVerified s' = countVerified s"
      by (rule countVerified_cong) (simp_all add: f)
    then show ?thesis using f(3) step.IH by simp
  qed
qed



lemma verify_settled:
  assumes "m_status (mrvData s d) \<noteq> MRV_Submitted" and "m_status (mrvData s d) \<noteq> MRV_UnderReview"
  shows "\<exists>e. verifyMRVData s sender now d st vn = Inl e"
    and "roles s VERIFIER_ROLE sender \<Longrightarrow> \<not> paused s \<Longrightarrow> m_id (mrvData s d) \<noteq> 0 \<Longrightarrow>
           verifyMRVData s sender now d st vn = Inl (Revert ''Data not in verifiable status'')"
  using assms by (simp_all add: verifyMRVData_def)

lemma submit_only_active_or_verified:
  "submitMRVData s sender now projectId dataHash coords meth cs bio area atts = Inr s' \<Longrightarrow>
     p_id (projects s projectId) \<noteq> 0 \<and> p_isActive (projects s projectId)
     \<and> (p_status (projects s projectId) = PS_Active \<or> p_status (projects s projectId) = PS_Verified)"
  by (simp add: submitMRVData_def split: if_splits)

lemma register_invalid:
  assumes "name = [] \<or> location = [] \<or> area = 0"
  shows "registerProject s sender now name descr location coords area eco docs est \<in>
           {Inl (MissingRole sender STAKEHOLDER_ROLE), Inl (Revert ''Pausable: paused''),
            Inl (Revert ''Project name cannot be empty''),
            Inl (Revert ''Project location cannot be empty''),
            Inl (Revert ''Project area must be greater than zero'')}"
  using assms by (auto simp: registerProject_def)


lemma updateStakeholderReputation_score:
  assumes "updateStakeholderReputation s a positive = Inr s'"
    and "stakeholderByAddress s a = i" and "i \<noteq> 0"
  shows "sh_reputationScore (stakeholders s' i) =
           (if positive then min 1000 (sh_reputationScore (stakeholders s i) + 10)
            else sh_reputationScore (stakeholders s i) - 20)"
    and "j \<noteq> i \<Longrightarrow> stakeholders s' j = stakeholders s j"
  using assms
  by (auto simp: updateStakeholderReputation_def Let_def checked_add_def min_def
        split: if_splits option.splits)

lemmas eval = run_def transact_def registerStakeholder_def approveStakeholder_def
  registerProject_def updateProjectStatus_def submitMRVData_def verifyMRVData_def
  updateStakeholderReputation_def constructor_def zeroProject_def zeroStakeholder_def
  zeroMRVData_def zeroStatistics_def checked_add_def checked_sub_def checked_mul_def
  UINT_MAX_def Let_def

lemma submitted_facts:
  "roles submitted VERIFIER_ROLE 1" "\<not> paused submitted"
  "m_id (mrvData submitted 1) = 1" "m_projectId (mrvData submitted 1) = 1"
  "m_status (mrvData submitted 1) = MRV_Submitted"
  "m_carbonSequestration (mrvData submitted 1) = 1250"
  "p_actualCarbonCredits (projects submitted 1) = 0"
  "p_status (projects submitted 1) = PS_Active"
  "p_owner (projects submitted 1) = 2"
  "stakeholderByAddress submitted 2 = 1"
  "sh_reputationScore (stakeholders submitted 1) = 500"
  "sh_isApproved (stakeholders submitted 1)"
  by (simp_all add: submitted_def scenario_submitted_def eval)

subsection \<open>The REST layer\<close>



lemma check_set: "set (check ok field msg) = (if ok then {} else {(field, msg)})"
  by (simp add: check_def)

lemma post_projects_invalid:
  assumes "validateProjectRegistration b \<noteq> []"
  shows "post_projects store nowId isoDate b =
           (store, \<lparr>statusCode = 400, payload = ValidationFailed (validateProjectRegistration b)\<rparr>)"
  using assms by (simp add: post_projects_def Let_def)

lemma validate_empty_name:
  "toString (b_name b) = [] \<Longrightarrow>
     (''name'', ''Project name is required'') \<in> set (validateProjectRegistration b)"
  by (simp add: validateProjectRegistration_def check_set notEmpty_def)

lemma validate_empty_location:
  "toString (b_location b) = [] \<Longrightarrow>
     (''location'', ''Project location is required'') \<in> set (validateProjectRegistration b)"
  by (simp add: validateProjectRegistration_def check_set notEmpty_def)

lemma validate_area:
  "b_area b = Some a \<Longrightarrow> a \<le> 0 \<Longrightarrow>
     (''area'', ''Area must be between 0.1 and 100,000 hectares'')
       \<in> set (validateProjectRegistration b)"
  by (simp add: validateProjectRegistration_def check_set isFloat_def)




lemmas r_eval = serve_def post_projects_def put_projects_status_def post_stakeholder_register_def
  put_stakeholders_approve_def post_mrv_data_def put_mrv_data_verify_def
  validateProjectRegistration_def validateMRVData_def validateAdminAction_def
  check_def notEmpty_def isLength_def isIn_def isFloat_def isFloatMin_def isIntMin_def
  matchesCoordinates_def matchesNumber_def matchesAddress_def isDigit_def isHexDigit_def
  toString_def Let_def r_empty_def r_projectBody_def r_admin_def r_adminA_def r_adminB_def
  r_mrvBody_def r_stakeholderBody_def

lemma valid_bodies:
  "validateProjectRegistration (r_projectBody ''mangrove'') = []"
  "validateAdminAction (r_admin ''approve'' r_adminA) = []"
  "validateAdminAction (r_admin ''verify'' r_adminA) = []"
  "validateAdminAction (r_admin ''verify'' r_adminB) = []"
  "validateAdminAction (r_admin ''approve'' r_adminB) = []"
  "validateMRVData r_mrvBody = []"
  by (simp_all add: r_eval)

lemma r_scenario_store:
  "serve r_empty r_scenario =
    \<lparr>projects_json = [\<lparr>rp_id = ''p1'', rp_name = Some ''Mangrove belt'',
        rp_location = Some ''Kochi'', rp_area = Some 40, rp_ecosystemType = Some ''mangrove'',
        rp_description = None, rp_estimatedCredits = Some 500,
        rp_coordinates = Some ''9.93,76.26'', rp_ownerAddress = None, rp_status = ''active'',
        rp_createdAt = ''2025-01-01'', rp_owner = ''unknown'', rp_actualCredits = 0,
        rp_verifiedAt = None, rp_approvedAt = Some ''2025-01-02'', rp_rejectedAt = None,
        rp_rejectionReason = None, rp_suspendedAt = None, rp_suspensionReason = None,
        rp_lastModified = Some ''2025-01-02''\<rparr>],
     stakeholders_json = [\<lparr>rs_id = ''s1'', rs_name = Some ''Asha'',
        rs_organization = Some ''Coastal Trust'', rs_stakeholderType = Some ''NGO'',
        rs_location = Some ''Kochi'', rs_registrationDate = ''2025-01-03'',
        rs_status = ''approved'', rs_approvedAt = Some ''2025-01-04'',
        rs_approvedBy = Some r_adminA\<rparr>],
     mrv_data_json = [\<lparr>rm_id = ''m1'', rm_projectId = Some ''p1'',
        rm_dataHash = Some ''QmHash000001'', rm_coordinates = Some ''9.93,76.26'',
        rm_carbonSequestration = Some (25 / 2),
        rm_collectorAddress = Some ''0xcccccccccccccccccccccccccccccccccccccccc'',
        rm_timestamp = ''2025-01-05'', rm_status = ''verified'', rm_verified = True,
        rm_verifiedAt = Some ''2025-01-06'', rm_verifiedBy = Some r_adminA\<rparr>]\<rparr>"
  by (simp add: r_scenario_def r_eval)






lemma put_mrv_data_verify_found:
  assumes "validateAdminAction b = []"
    and "findIndex (\<lambda>x. rm_id x = dataId) (mrv_data_json store) = Some i"
  shows "put_mrv_data_verify store isoDate dataId b =
    (store\<lparr>mrv_data_json := (mrv_data_json store)[i := (mrv_data_json store ! i)
        \<lparr>rm_verified := True, rm_verifiedAt := Some isoDate,
         rm_verifiedBy := ab_adminAddress b, rm_status := ''verified''\<rparr>]\<rparr>,
     \<lparr>statusCode = 200, payload = MRVPayload ''MRV data verified successfully''
        ((mrv_data_json store ! i)\<lparr>rm_verified := True, rm_verifiedAt := Some isoDate,
           rm_verifiedBy := ab_adminAddress b, rm_status := ''verified''\<rparr>)\<rparr>)"
  using assms by (simp add: put_mrv_data_verify_def Let_def)

lemma put_mrv_data_verify_frame:
  "projects_json (fst (put_mrv_data_verify store isoDate dataId b)) = projects_json store"
  "stakeholders_json (fst (put_mrv_data_verify store isoDate dataId b)) = stakeholders_json store"
  by (simp_all add: put_mrv_data_verify_def Let_def split: option.splits)

lemma post_mrv_data_status:
  "statusCode (snd (post_mrv_data store nowId isoDate b)) = 201 \<longleftrightarrow> validateMRVData b = []"
  by (simp add: post_mrv_data_def Let_def)

lemma post_mrv_data_ignores_projects:
  "snd (post_mrv_data (store\<lparr>projects_json := ps\<rparr>) nowId isoDate b)
     = snd (post_mrv_data store nowId isoDate b)"
  by (simp add: post_mrv_data_def Let_def)



lemma r_scenario_index:
  "findIndex (\<lambda>x. rm_id x = ''m1'') (mrv_data_json (serve r_empty r_scenario)) = Some 0"
  "findIndex (\<lambda>x. rs_id x = ''s1'') (stakeholders_json (serve r_empty r_scenario)) = Some 0"
  by (simp_all add: r_scenario_store)

text \<open>The analytics endpoint keeps no counter: it counts the collection on every read.\<close>

lemma analytics_recounts:
  "an_verifiedProjects (get_analytics_overview store)
     = length (filter (\<lambda>p. rp_status p = ''verified'') (projects_json store))"
  by (simp add: get_analytics_overview_def Let_def)

subsection \<open>The scenarios, evaluated\<close>



lemma transact_revert: "exec s sender now c = Inl e \<Longrightarrow> transact s (sender, now, c) = s"
  by (simp add: transact_def)

lemma s_transact_revert: "s_exec s sender now c = Inl e \<Longrightarrow> s_transact s (sender, now, c) = s"
  by (simp add: s_transact_def)

lemma submitted_reachable: "reachable submitted"
  unfolding submitted_def by (rule run_reachable) (rule init)

lemma verified_facts:
  "exec submitted 1 105 (VerifyMRVData 1 MRV_Verified ''ok'')
     = Inr (transact submitted (1, 105, VerifyMRVData 1 MRV_Verified ''ok''))"
  "p_actualCarbonCredits (projects (transact submitted (1, 105, VerifyMRVData 1 MRV_Verified ''ok'')) 1)
     = 1250"
  "m_status (mrvData (transact submitted (1, 105, VerifyMRVData 1 MRV_Verified ''ok'')) 1)
     = MRV_Verified"
  "m_id (mrvData (transact submitted (1, 105, VerifyMRVData 1 MRV_Verified ''ok'')) 1) = 1"
  "roles (transact submitted (1, 105, VerifyMRVData 1 MRV_Verified ''ok'')) VERIFIER_ROLE 1"
  "\<not> paused (transact submitted (1, 105, VerifyMRVData 1 MRV_Verified ''ok''))"
  "sh_reputationScore
     (stakeholders (transact submitted (1, 105, VerifyMRVData 1 MRV_Verified ''ok'')) 1) = 510"
  "sh_isApproved
     (stakeholders (transact submitted (1, 105, VerifyMRVData 1 MRV_Verified ''ok'')) 1)"
  by (simp_all add: submitted_def scenario_submitted_def eval)


lemma s_submitted_facts:
  "s_exec (s_run (s_constructor 1) (butlast s_scenario)) 1 105 (S_verifyMRVData 1)
     = Inr (s_run (s_constructor 1) s_scenario)"
  "sp_actualCredits (s_projects (s_run (s_constructor 1) (butlast s_scenario)) 1) = 0"
  "sm_carbonSequestration (s_mrvDataById (s_run (s_constructor 1) (butlast s_scenario)) 1) = 1250"
  by (simp_all add: s_scenario_def s_eval)

lemma s_verified_facts:
  "s_roles (s_run (s_constructor 1) s_scenario) VERIFIER_ROLE 1"
  "s_roles (s_run (s_constructor 1) s_scenario) ADMIN_ROLE 1"
  "sm_timestamp (s_mrvDataById (s_run (s_constructor 1) s_scenario) 1) = 104"
  "sm_verified (s_mrvDataById (s_run (s_constructor 1) s_scenario) 1)"
  "ss_approved (s_stakeholders (s_run (s_constructor 1) s_scenario) 2)"
  "ss_stakeholderAddress (s_stakeholders (s_run (s_constructor 1) s_scenario) 2) = 2"
  by (simp_all add: s_scenario_def s_eval)

lemma prefix_facts:
  "exec (run (constructor 1) (take 4 scenario_submitted)) 2 104
      (SubmitMRVData 1 ''Qm01'' ''9.93,76.26'' ''plots'' 1250 10 3500 []) = Inr submitted"
  "s_exec (s_run (s_constructor 1) (take 4 s_scenario)) 2 104
      (S_submitMRVData 1 ''Qm01'' ''9.93,76.26'' 1250)
     = Inr (s_run (s_constructor 1) (take 5 s_scenario))"
  by (simp_all add: submitted_def scenario_submitted_def eval s_scenario_def s_eval)



lemma s_verifyProject_counter:
  assumes "s_verifyProject s sender now projectId = Inr s'"
  shows "s_totalVerifiedProjects s' = s_totalVerifiedProjects s"
    and "sp_status (s_projects s projectId) \<noteq> S_Verified"
    and "sp_status (s_projects s' projectId) = S_Verified"
  using assms by (auto simp: s_verifyProject_def Let_def split: if_splits)

subsection \<open>The claims\<close>

text \<open>
  C1. The statistic \<open>totalVerifiedProjects\<close> should equal the number of projects whose
  status is verified. The simplified contract loses count: \<open>verifyProject\<close> stores the
  status \<open>Verified\<close> and only then tests whether the status differs from \<open>Verified\<close>,
  so it never increments the counter. After the deployer verifies the one registered
  project, the project is verified, the count of verified projects is 1, the statistic is
  0, and moving the project out of \<open>Verified\<close> with \<open>changeProjectStatus\<close> panics on
  the decrement of 0.
\<close>

theorem s_verifyProject_drift:
  "sp_status (s_projects (s_run (s_constructor 1) s_drift) 1) = S_Verified
   \<and> s_countVerified (s_run (s_constructor 1) s_drift) = 1
   \<and> s_totalVerifiedProjects (s_run (s_constructor 1) s_drift) = 0
   \<and> s_getRegistryStatistics (s_run (s_constructor 1) s_drift) = (1, 0, 0, 0)
   \<and> s_exec (s_run (s_constructor 1) s_drift) 1 104 (S_changeProjectStatus 1 S_Suspended)
         = Inl Panic"
  by (simp add: s_drift_def s_countVerified_def s_getRegistryStatistics_def s_eval)


text \<open>
  C2. In both contracts a project's actual credits never decrease: over one successful
  call of any function from a reachable state, and so over any run of transactions. A
  call that changes them is a verification of an MRV record of that project, the record
  enters the verified state by it (unverified to verified in the simplified contract,
  Submitted or UnderReview to Verified in the full one), and the credits grow by exactly
  the record's \<open>carbonSequestration\<close>.
\<close>

theorem actualCredits_monotone:
  "(s_reachable s \<and> s_exec s sender now c = Inr s' \<longrightarrow>
      sp_actualCredits (s_projects s p) \<le> sp_actualCredits (s_projects s' p)
      \<and> (sp_actualCredits (s_projects s' p) \<noteq> sp_actualCredits (s_projects s p) \<longrightarrow>
           (\<exists>dataId. c = S_verifyMRVData dataId \<and> sm_projectId (s_mrvDataById s dataId) = p
              \<and> \<not> sm_verified (s_mrvDataById s dataId) \<and> sm_verified (s_mrvDataById s' dataId)
              \<and> sp_actualCredits (s_projects s' p) =
                  sp_actualCredits (s_projects s p)
                  + sm_carbonSequestration (s_mrvDataById s dataId))))
   \<and> (s_reachable s \<longrightarrow>
        sp_actualCredits (s_projects s p) \<le> sp_actualCredits (s_projects (s_run s txs) p))
   \<and> (reachable t \<and> exec t sender now c' = Inr t' \<longrightarrow>
      p_actualCarbonCredits (projects t p) \<le> p_actualCarbonCredits (projects t' p)
      \<and> (p_actualCarbonCredits (projects t' p) \<noteq> p_actualCarbonCredits (projects t p) \<longrightarrow>
           (\<exists>dataId vn. c' = VerifyMRVData dataId MRV_Verified vn
              \<and> m_projectId (mrvData t dataId) = p
              \<and> (m_status (mrvData t dataId) = MRV_Submitted
                   \<or> m_status (mrvData t dataId) = MRV_UnderReview)
              \<and> m_status (mrvData t' dataId) = MRV_Verified
              \<and> p_actualCarbonCredits (projects t' p) =
                  p_actualCarbonCredits (projects t p)
                  + m_carbonSequestration (mrvData t dataId))))
   \<and> (reachable t \<longrightarrow>
        p_actualCarbonCredits (projects t p) \<le> p_actualCarbonCredits (projects (run t txs') p))"
  using s_credits_step[of s sender now c s' p] s_credits_run[of s p txs]
    credits_step[of t sender now c' t' p] credits_run[of t p txs']
  by blast

theorem actualCredits_monotone_witness:
  "s_reachable (s_run (s_constructor 1) (butlast s_scenario))
   \<and> s_exec (s_run (s_constructor 1) (butlast s_scenario)) 1 105 (S_verifyMRVData 1)
       = Inr (s_run (s_constructor 1) s_scenario)
   \<and> sp_actualCredits (s_projects (s_run (s_constructor 1) (butlast s_scenario)) 1) = 0
   \<and> sp_actualCredits (s_projects (s_run (s_constructor 1) s_scenario) 1) = 1250
   \<and> sm_carbonSequestration (s_mrvDataById (s_run (s_constructor 1) (butlast s_scenario)) 1) = 1250
   \<and> reachable submitted
   \<and> exec submitted 1 105 (VerifyMRVData 1 MRV_Verified ''ok'')
       = Inr (transact submitted (1, 105, VerifyMRVData 1 MRV_Verified ''ok''))
   \<and> p_actualCarbonCredits (projects submitted 1) = 0
   \<and> p_actualCarbonCredits
        (projects (transact submitted (1, 105, VerifyMRVData 1 MRV_Verified ''ok'')) 1) = 1250
   \<and> m_carbonSequestration (mrvData submitted 1) = 1250"
proof -
  let ?s = "s_run (s_constructor 1) (butlast s_scenario)"
  let ?s' = "s_run (s_constructor 1) s_scenario"
  let ?t' = "transact submitted (1, 105, VerifyMRVData 1 MRV_Verified ''ok'')"
  have r: "s_reachable ?s" by (rule s_run_reachable) (rule s_init)
  note m = actualCredits_monotone[of ?s 1 105 "S_verifyMRVData 1" ?s' 1 "[]" submitted
      "VerifyMRVData 1 MRV_Verified ''ok''" ?t' "[]"]
  have a: "sp_actualCredits (s_projects ?s 1) \<le> sp_actualCredits (s_projects ?s' 1)"
    using m r s_submitted_facts(1) by blast
  have b: "p_actualCarbonCredits (projects submitted 1)
             \<le> p_actualCarbonCredits (projects ?t' 1)"
    using m submitted_reachable verified_facts(1) by blast
  show ?thesis
    using a b r submitted_reachable s_submitted_facts s_scenario_facts(3) verified_facts(1,2)
      submitted_facts(6,7)
    by simp
qed


text \<open>
  C3, as amended. In the full contract \<open>verifyMRVData\<close> on a record whose status is
  Verified or Rejected reverts, for every caller and every requested status, and the
  transaction leaves the storage as it was; for a verifier on an unpaused contract and an
  existing record the revert is "Data not in verifiable status". In the simplified
  contract the same holds for a record that is already verified ("Data already
  verified"). The REST handler of \<open>PUT /mrv-data/:id/verify\<close> has no such guard: for a
  valid admin body and any record with that id, whatever its status, it answers 200 and
  overwrites \<open>verified\<close>, \<open>verifiedAt\<close>, \<open>verifiedBy\<close> and \<open>status\<close>.
\<close>

theorem verify_settled_record:
  "(m_status (mrvData s d) = MRV_Verified \<or> m_status (mrvData s d) = MRV_Rejected \<longrightarrow>
      (\<exists>e. verifyMRVData s sender now d st vn = Inl e)
      \<and> transact s (sender, now, VerifyMRVData d st vn) = s
      \<and> (roles s VERIFIER_ROLE sender \<and> \<not> paused s \<and> m_id (mrvData s d) \<noteq> 0 \<longrightarrow>
           verifyMRVData s sender now d st vn = Inl (Revert ''Data not in verifiable status'')))
   \<and> (sm_verified (s_mrvDataById t d) \<longrightarrow>
      (\<exists>e. s_verifyMRVData t sender now d = Inl e)
      \<and> s_transact t (sender, now, S_verifyMRVData d) = t
      \<and> (s_roles t VERIFIER_ROLE sender \<and> sm_timestamp (s_mrvDataById t d) \<noteq> 0 \<longrightarrow>
           s_verifyMRVData t sender now d = Inl (Revert ''Data already verified'')))
   \<and> (validateAdminAction b = []
        \<and> findIndex (\<lambda>x. rm_id x = dataId) (mrv_data_json store) = Some i \<longrightarrow>
        put_mrv_data_verify store isoDate dataId b =
          (store\<lparr>mrv_data_json := (mrv_data_json store)[i := (mrv_data_json store ! i)
              \<lparr>rm_verified := True, rm_verifiedAt := Some isoDate,
               rm_verifiedBy := ab_adminAddress b, rm_status := ''verified''\<rparr>]\<rparr>,
           \<lparr>statusCode = 200, payload = MRVPayload ''MRV data verified successfully''
              ((mrv_data_json store ! i)\<lparr>rm_verified := True, rm_verifiedAt := Some isoDate,
                 rm_verifiedBy := ab_adminAddress b, rm_status := ''verified''\<rparr>)\<rparr>))"
proof -
  have full: "(\<exists>e. verifyMRVData s sender now d st vn = Inl e)
      \<and> transact s (sender, now, VerifyMRVData d st vn) = s
      \<and> (roles s VERIFIER_ROLE sender \<and> \<not> paused s \<and> m_id (mrvData s d) \<noteq> 0 \<longrightarrow>
           verifyMRVData s sender now d st vn = Inl (Revert ''Data not in verifiable status''))"
    if "m_status (mrvData s d) = MRV_Verified \<or> m_status (mrvData s d) = MRV_Rejected"
  proof -
    have n: "m_status (mrvData s d) \<noteq> MRV_Submitted" "m_status (mrvData s d) \<noteq> MRV_UnderReview"
      using that by auto
    from verify_settled(1)[OF n] obtain e where e: "verifyMRVData s sender now d st vn = Inl e"
      by blast
    then have "transact s (sender, now, VerifyMRVData d st vn) = s"
      by (simp add: transact_revert)
    then show ?thesis using e verify_settled(2)[OF n] by blast
  qed
  have simple: "(\<exists>e. s_verifyMRVData t sender now d = Inl e)
      \<and> s_transact t (sender, now, S_verifyMRVData d) = t
      \<and> (s_roles t VERIFIER_ROLE sender \<and> sm_timestamp (s_mrvDataById t d) \<noteq> 0 \<longrightarrow>
           s_verifyMRVData t sender now d = Inl (Revert ''Data already verified''))"
    if v: "sm_verified (s_mrvDataById t d)"
  proof -
    from s_verify_twice(1)[OF v] obtain e where e: "s_verifyMRVData t sender now d = Inl e"
      by blast
    then have "s_transact t (sender, now, S_verifyMRVData d) = t"
      by (simp add: s_transact_revert)
    then show ?thesis using e s_verify_twice(2)[OF v] by blast
  qed
  show ?thesis
    by (intro conjI impI) (use full simple put_mrv_data_verify_found in \<open>blast+\<close>)
qed

theorem verify_settled_record_witness:
  "m_status (mrvData (transact submitted (1, 105, VerifyMRVData 1 MRV_Verified ''ok'')) 1)
     = MRV_Verified
   \<and> verifyMRVData (transact submitted (1, 105, VerifyMRVData 1 MRV_Verified ''ok'')) 1 106 1
        MRV_Verified ''again'' = Inl (Revert ''Data not in verifiable status'')
   \<and> transact (transact submitted (1, 105, VerifyMRVData 1 MRV_Verified ''ok''))
        (1, 106, VerifyMRVData 1 MRV_Verified ''again'')
       = transact submitted (1, 105, VerifyMRVData 1 MRV_Verified ''ok'')
   \<and> sm_verified (s_mrvDataById (s_run (s_constructor 1) s_scenario) 1)
   \<and> s_verifyMRVData (s_run (s_constructor 1) s_scenario) 1 106 1
       = Inl (Revert ''Data already verified'')
   \<and> s_transact (s_run (s_constructor 1) s_scenario) (1, 106, S_verifyMRVData 1)
       = s_run (s_constructor 1) s_scenario
   \<and> statusCode (snd (put_mrv_data_verify (serve r_empty r_scenario) ''2025-02-01'' ''m1''
        (r_admin ''verify'' r_adminB))) = 200"
proof -
  let ?v = "transact submitted (1, 105, VerifyMRVData 1 MRV_Verified ''ok'')"
  let ?s = "s_run (s_constructor 1) s_scenario"
  let ?r = "serve r_empty r_scenario"
  note t = verify_settled_record[of ?v 1 1 106 MRV_Verified "''again''" ?s
      "r_admin ''verify'' r_adminB" "''m1''" ?r 0 "''2025-02-01''"]
  have 1: "verifyMRVData ?v 1 106 1 MRV_Verified ''again''
      = Inl (Revert ''Data not in verifiable status'')"
    "transact ?v (1, 106, VerifyMRVData 1 MRV_Verified ''again'') = ?v"
    using t verified_facts(3,4,5,6) by auto
  have 2: "s_verifyMRVData ?s 1 106 1 = Inl (Revert ''Data already verified'')"
    "s_transact ?s (1, 106, S_verifyMRVData 1) = ?s"
    using t s_verified_facts(1,3,4) by auto
  have 3: "statusCode (snd (put_mrv_data_verify ?r ''2025-02-01'' ''m1''
        (r_admin ''verify'' r_adminB))) = 200"
    using t valid_bodies(4) r_scenario_index(1) by simp
  show ?thesis using 1 2 3 verified_facts(3) s_verified_facts(4) by simp
qed


text \<open>
  Against C3 as stated: over REST, verifying the already verified entry \<open>m1\<close> again
  succeeds with 200 and replaces who verified it and when.
\<close>

theorem rest_verify_again:
  "rm_status (mrv_data_json (serve r_empty r_scenario) ! 0) = ''verified''
   \<and> rm_verifiedBy (mrv_data_json (serve r_empty r_scenario) ! 0) = Some r_adminA
   \<and> statusCode (snd (put_mrv_data_verify (serve r_empty r_scenario) ''2025-02-01'' ''m1''
        (r_admin ''verify'' r_adminB))) = 200
   \<and> rm_verifiedBy (mrv_data_json (fst (put_mrv_data_verify (serve r_empty r_scenario)
        ''2025-02-01'' ''m1'' (r_admin ''verify'' r_adminB))) ! 0) = Some r_adminB
   \<and> rm_verifiedAt (mrv_data_json (fst (put_mrv_data_verify (serve r_empty r_scenario)
        ''2025-02-01'' ''m1'' (r_admin ''verify'' r_adminB))) ! 0) = Some ''2025-02-01''
   \<and> r_adminA \<noteq> r_adminB"
  by (simp add: r_scenario_store) (simp add: r_eval)


text \<open>
  C4, as amended. In the full contract a submission succeeds only against a project that
  exists, is not deactivated and has status Active or Verified; in the simplified contract
  only against a project that exists and has status Active. The REST handler of
  \<open>POST /mrv-data\<close> never reads the project collection: it answers 201 exactly when the
  body passes \<open>validateMRVData\<close>, and its answer is the same for every content of
  \<open>projects.json\<close>.
\<close>

theorem submission_needs_open_project:
  "(submitMRVData s sender now projectId dataHash coords meth cs bio area atts = Inr s' \<longrightarrow>
      p_id (projects s projectId) \<noteq> 0 \<and> p_isActive (projects s projectId)
      \<and> (p_status (projects s projectId) = PS_Active
           \<or> p_status (projects s projectId) = PS_Verified))
   \<and> (s_submitMRVData t sender now projectId dataHash coords cs = Inr t' \<longrightarrow>
        sp_id (s_projects t projectId) \<noteq> 0 \<and> sp_status (s_projects t projectId) = S_Active)
   \<and> (statusCode (snd (post_mrv_data store nowId isoDate b)) = 201 \<longleftrightarrow> validateMRVData b = [])
   \<and> snd (post_mrv_data (store\<lparr>projects_json := ps\<rparr>) nowId isoDate b)
        = snd (post_mrv_data store nowId isoDate b)"
  using submit_only_active_or_verified[of s sender now projectId dataHash coords meth cs bio area
      atts s']
    s_submit_only_active[of t sender now projectId dataHash coords cs t']
    post_mrv_data_status[of store nowId isoDate b]
    post_mrv_data_ignores_projects[where store=store and ps=ps and nowId=nowId
      and isoDate=isoDate and b=b]
  by blast

theorem submission_needs_open_project_witness:
  "submitMRVData (run (constructor 1) (take 4 scenario_submitted)) 2 104 1 ''Qm01''
      ''9.93,76.26'' ''plots'' 1250 10 3500 [] = Inr submitted
   \<and> p_id (projects (run (constructor 1) (take 4 scenario_submitted)) 1) \<noteq> 0
   \<and> p_status (projects (run (constructor 1) (take 4 scenario_submitted)) 1) = PS_Active
   \<and> s_submitMRVData (s_run (s_constructor 1) (take 4 s_scenario)) 2 104 1 ''Qm01''
      ''9.93,76.26'' 1250 = Inr (s_run (s_constructor 1) (take 5 s_scenario))
   \<and> sp_id (s_projects (s_run (s_constructor 1) (take 4 s_scenario)) 1) \<noteq> 0
   \<and> sp_status (s_projects (s_run (s_constructor 1) (take 4 s_scenario)) 1) = S_Active"
proof -
  let ?s = "run (constructor 1) (take 4 scenario_submitted)"
  let ?t = "s_run (s_constructor 1) (take 4 s_scenario)"
  have a: "submitMRVData ?s 2 104 1 ''Qm01'' ''9.93,76.26'' ''plots'' 1250 10 3500 []
      = Inr submitted"
    using prefix_facts(1) by simp
  have b: "s_submitMRVData ?t 2 104 1 ''Qm01'' ''9.93,76.26'' 1250
      = Inr (s_run (s_constructor 1) (take 5 s_scenario))"
    using prefix_facts(2) by simp
  have st: "p_status (projects ?s 1) = PS_Active"
    by (simp add: scenario_submitted_def eval)
  note t = submission_needs_open_project[where s="?s" and sender=2 and now=104
      and projectId=1 and dataHash="''Qm01''" and coords="''9.93,76.26''" and meth="''plots''"
      and cs=1250 and bio=10 and area=3500 and atts="[]" and s'=submitted and t="?t"
      and t'="s_run (s_constructor 1) (take 5 s_scenario)"]
  have "p_id (projects ?s 1) \<noteq> 0" using t a by blast
  moreover have "sp_id (s_projects ?t 1) \<noteq> 0 \<and> sp_status (s_projects ?t 1) = S_Active"
    using t b by blast
  ultimately show ?thesis using a b st by blast
qed


text \<open>
  Against C4 as stated: over REST a submission naming project \<open>p1\<close> is accepted while
  no project exists, and while \<open>p1\<close> exists with status \<open>pending\<close>.
\<close>

theorem rest_submission_without_project:
  "projects_json r_empty = []
   \<and> mb_projectId r_mrvBody = Some ''p1''
   \<and> statusCode (snd (post_mrv_data r_empty ''m1'' ''2025-01-05'' r_mrvBody)) = 201
   \<and> length (mrv_data_json (fst (post_mrv_data r_empty ''m1'' ''2025-01-05'' r_mrvBody))) = 1
   \<and> rp_status (projects_json (serve r_empty (take 1 r_scenario)) ! 0) = ''pending''
   \<and> rp_id (projects_json (serve r_empty (take 1 r_scenario)) ! 0) = ''p1''
   \<and> statusCode (snd (post_mrv_data (serve r_empty (take 1 r_scenario)) ''m1'' ''2025-01-05''
        r_mrvBody)) = 201"
  by (simp add: r_scenario_def r_eval)


text \<open>
  C5, as amended. In the full contract \<open>carbonSequestration\<close> counts hundredths of a
  ton, so 12.5 is 1250. A successful \<open>verifyMRVData\<close> with status Verified of a record
  with sequestration 1250, against a project whose actual credits are 0, leaves the
  project with actual credits 1250 and raises the reputation score of the project owner
  (a registered stakeholder with a score of at most 990) by 10. The REST handler of
  \<open>PUT /mrv-data/:id/verify\<close> changes the MRV entry only: the projects and the
  stakeholders stay as they were.
\<close>

theorem verified_record_accrues:
  "(verifyMRVData s sender now d MRV_Verified vn = Inr s'
      \<and> m_carbonSequestration (mrvData s d) = 1250
      \<and> p = m_projectId (mrvData s d)
      \<and> p_actualCarbonCredits (projects s p) = 0
      \<and> i = stakeholderByAddress s (p_owner (projects s p)) \<and> i \<noteq> 0
      \<and> sh_reputationScore (stakeholders s i) + 10 \<le> 1000 \<longrightarrow>
        p_actualCarbonCredits (projects s' p) = 1250
      \<and> sh_reputationScore (stakeholders s' i) = sh_reputationScore (stakeholders s i) + 10)
   \<and> projects_json (fst (put_mrv_data_verify store isoDate dataId b)) = projects_json store
   \<and> stakeholders_json (fst (put_mrv_data_verify store isoDate dataId b))
        = stakeholders_json store"
proof -
  have full: "p_actualCarbonCredits (projects s' p) = 1250
      \<and> sh_reputationScore (stakeholders s' i) = sh_reputationScore (stakeholders s i) + 10"
    if v: "verifyMRVData s sender now d MRV_Verified vn = Inr s'"
      and cs: "m_carbonSequestration (mrvData s d) = 1250"
      and p: "p = m_projectId (mrvData s d)"
      and zero: "p_actualCarbonCredits (projects s p) = 0"
      and i: "i = stakeholderByAddress s (p_owner (projects s p))" and nz: "i \<noteq> 0"
      and room: "sh_reputationScore (stakeholders s i) + 10 \<le> 1000"
  proof -
    have "p_actualCarbonCredits (projects s' p) = 1250"
      using cs zero by (simp add: verifyMRVData_projects[OF v] p)
    moreover have "sh_reputationScore (stakeholders s' i)
        = sh_reputationScore (stakeholders s i) + 10"
      using nz room i p by (simp add: verifyMRVData_stakeholders[OF v refl] min_def)
    ultimately show ?thesis by blast
  qed
  show ?thesis
    by (intro conjI impI) (use full put_mrv_data_verify_frame in \<open>blast+\<close>)
qed

theorem verified_record_accrues_witness:
  "verifyMRVData submitted 1 105 1 MRV_Verified ''ok''
     = Inr (transact submitted (1, 105, VerifyMRVData 1 MRV_Verified ''ok''))
   \<and> p_status (projects submitted 1) = PS_Active
   \<and> m_carbonSequestration (mrvData submitted 1) = 1250
   \<and> p_actualCarbonCredits (projects submitted 1) = 0
   \<and> sh_reputationScore (stakeholders submitted 1) = 500
   \<and> p_actualCarbonCredits
        (projects (transact submitted (1, 105, VerifyMRVData 1 MRV_Verified ''ok'')) 1) = 1250
   \<and> sh_reputationScore
        (stakeholders (transact submitted (1, 105, VerifyMRVData 1 MRV_Verified ''ok'')) 1) = 510"
proof -
  let ?v = "transact submitted (1, 105, VerifyMRVData 1 MRV_Verified ''ok'')"
  have v: "verifyMRVData submitted 1 105 1 MRV_Verified ''ok'' = Inr ?v"
    using verified_facts(1) by simp
  have p: "1 = m_projectId (mrvData submitted 1)" using submitted_facts(4) by simp
  have i: "1 = stakeholderByAddress submitted (p_owner (projects submitted 1))"
    using submitted_facts(9,10) by simp
  have "p_actualCarbonCredits (projects ?v 1) = 1250
      \<and> sh_reputationScore (stakeholders ?v 1) = sh_reputationScore (stakeholders submitted 1) + 10"
    using verified_record_accrues[where s=submitted and sender=1 and now=105 and d=1
        and vn="''ok''" and s'="?v" and p=1 and i=1] v p i
      submitted_facts(6,7,11)
    by simp
  then show ?thesis using v submitted_facts(6,7,8,11) by simp
qed


text \<open>
  Against C5 as stated: over REST, verifying an entry with sequestration 12.5 submitted
  against the active project \<open>p1\<close> with actual credits 0 leaves the actual credits at 0.
\<close>

theorem rest_verify_leaves_credits:
  "rp_id (projects_json (serve r_empty (butlast r_scenario)) ! 0) = ''p1''
   \<and> rp_status (projects_json (serve r_empty (butlast r_scenario)) ! 0) = ''active''
   \<and> rp_actualCredits (projects_json (serve r_empty (butlast r_scenario)) ! 0) = 0
   \<and> rm_projectId (mrv_data_json (serve r_empty (butlast r_scenario)) ! 0) = Some ''p1''
   \<and> rm_carbonSequestration (mrv_data_json (serve r_empty (butlast r_scenario)) ! 0)
       = Some (25 / 2)
   \<and> statusCode (snd (put_mrv_data_verify (serve r_empty (butlast r_scenario)) ''2025-01-06''
        ''m1'' (r_admin ''verify'' r_adminA))) = 200
   \<and> rm_status (mrv_data_json (fst (put_mrv_data_verify (serve r_empty (butlast r_scenario))
        ''2025-01-06'' ''m1'' (r_admin ''verify'' r_adminA))) ! 0) = ''verified''
   \<and> rp_actualCredits (projects_json (fst (put_mrv_data_verify
        (serve r_empty (butlast r_scenario)) ''2025-01-06'' ''m1''
        (r_admin ''verify'' r_adminA))) ! 0) = 0"
  by (simp add: r_scenario_def r_eval)


text \<open>
  C6. A registration whose area is at most 0, or whose name or location is empty, is
  refused and persists nothing. Over REST the answer is 400 with the list of field-level
  messages, which names the offending field, and the store is unchanged. In both
  contracts the call reverts (with the \<open>require\<close> message of the failed check, unless
  the pause or role check fails first) and the storage is unchanged.
\<close>

theorem invalid_registration_refused:
  "((\<exists>a. b_area b = Some a \<and> a \<le> 0) \<or> toString (b_name b) = [] \<or> toString (b_location b) = []
      \<longrightarrow>
      post_projects store nowId isoDate b =
        (store, \<lparr>statusCode = 400, payload = ValidationFailed (validateProjectRegistration b)\<rparr>)
      \<and> validateProjectRegistration b \<noteq> []
      \<and> ((\<exists>a. b_area b = Some a \<and> a \<le> 0) \<longrightarrow>
            (''area'', ''Area must be between 0.1 and 100,000 hectares'')
              \<in> set (validateProjectRegistration b))
      \<and> (toString (b_name b) = [] \<longrightarrow>
            (''name'', ''Project name is required'') \<in> set (validateProjectRegistration b))
      \<and> (toString (b_location b) = [] \<longrightarrow>
            (''location'', ''Project location is required'')
              \<in> set (validateProjectRegistration b)))
   \<and> (name = [] \<or> location = [] \<or> area = 0 \<longrightarrow>
        s_registerProject s sender now name location area eco docs est \<in>
           {Inl (Revert ''Pausable: paused''), Inl (Revert ''Project name required''),
            Inl (Revert ''Project location required''),
            Inl (Revert ''Project area must be greater than zero'')}
        \<and> s_transact s (sender, now, S_registerProject name location area eco docs est) = s
        \<and> registerProject t sender now name descr location coords area eco' docs est \<in>
           {Inl (MissingRole sender STAKEHOLDER_ROLE), Inl (Revert ''Pausable: paused''),
            Inl (Revert ''Project name cannot be empty''),
            Inl (Revert ''Project location cannot be empty''),
            Inl (Revert ''Project area must be greater than zero'')}
        \<and> transact t (sender, now,
              RegisterProject name descr location coords area eco' docs est) = t)"
proof -
  have rest: "post_projects store nowId isoDate b =
        (store, \<lparr>statusCode = 400, payload = ValidationFailed (validateProjectRegistration b)\<rparr>)
      \<and> validateProjectRegistration b \<noteq> []"
    if "(\<exists>a. b_area b = Some a \<and> a \<le> 0) \<or> toString (b_name b) = [] \<or> toString (b_location b) = []"
  proof -
    from that consider (area) a where "b_area b = Some a" "a \<le> 0"
      | (name) "toString (b_name b) = []" | (location) "toString (b_location b) = []"
      by blast
    then have "\<exists>x. x \<in> set (validateProjectRegistration b)"
    proof cases
      case area
      then show ?thesis by (intro exI) (rule validate_area)
    next
      case name
      then show ?thesis by (intro exI) (rule validate_empty_name)
    next
      case location
      then show ?thesis by (intro exI) (rule validate_empty_location)
    qed
    then have "validateProjectRegistration b \<noteq> []" by auto
    then show ?thesis by (simp add: post_projects_invalid)
  qed
  have contracts: "s_registerProject s sender now name location area eco docs est \<in>
           {Inl (Revert ''Pausable: paused''), Inl (Revert ''Project name required''),
            Inl (Revert ''Project location required''),
            Inl (Revert ''Project area must be greater than zero'')}
        \<and> s_transact s (sender, now, S_registerProject name location area eco docs est) = s
        \<and> registerProject t sender now name descr location coords area eco' docs est \<in>
           {Inl (MissingRole sender STAKEHOLDER_ROLE), Inl (Revert ''Pausable: paused''),
            Inl (Revert ''Project name cannot be empty''),
            Inl (Revert ''Project location cannot be empty''),
            Inl (Revert ''Project area must be greater than zero'')}
        \<and> transact t (sender, now,
              RegisterProject name descr location coords area eco' docs est) = t"
    if bad: "name = [] \<or> location = [] \<or> area = 0"
  proof -
    note a = s_register_invalid[OF bad, of s sender now eco docs est]
    note b = register_invalid[OF bad, of t sender now descr coords eco' docs est]
    have "s_transact s (sender, now, S_registerProject name location area eco docs est) = s"
      using a by (auto intro: s_transact_revert)
    moreover have "transact t (sender, now,
              RegisterProject name descr location coords area eco' docs est) = t"
      using b by (auto intro: transact_revert)
    ultimately show ?thesis using a b by blast
  qed
  have area: "(''area'', ''Area must be between 0.1 and 100,000 hectares'')
      \<in> set (validateProjectRegistration b)" if "\<exists>a. b_area b = Some a \<and> a \<le> 0"
    using that validate_area by blast
  show ?thesis
    by (intro conjI impI)
       (use rest contracts area validate_empty_name validate_empty_location in \<open>blast+\<close>)
qed

theorem invalid_registration_refused_witness:
  "post_projects r_empty ''p1'' ''2025-01-01'' ((r_projectBody ''mangrove'')\<lparr>b_area := Some (- 5)\<rparr>) =
     (r_empty, \<lparr>statusCode = 400, payload = ValidationFailed
        [(''area'', ''Area must be between 0.1 and 100,000 hectares'')]\<rparr>)
   \<and> post_projects r_empty ''p1'' ''2025-01-01'' ((r_projectBody ''mangrove'')\<lparr>b_name := Some []\<rparr>) =
     (r_empty, \<lparr>statusCode = 400, payload = ValidationFailed
        [(''name'', ''Project name is required''),
         (''name'', ''Project name must be between 3 and 200 characters'')]\<rparr>)
   \<and> s_registerProject (s_run (s_constructor 1) (take 2 s_scenario)) 2 102
        ''Mangrove belt'' ''Kochi'' 0 S_Mangrove [] 500
       = Inl (Revert ''Project area must be greater than zero'')
   \<and> s_transact (s_run (s_constructor 1) (take 2 s_scenario))
        (2, 102, S_registerProject ''Mangrove belt'' ''Kochi'' 0 S_Mangrove [] 500)
       = s_run (s_constructor 1) (take 2 s_scenario)
   \<and> registerProject (run (constructor 1) (take 2 scenario_submitted)) 2 102
        [] ''Replanting'' ''Kochi'' ''9.93,76.26'' 4000 Mangrove [] 500
       = Inl (Revert ''Project name cannot be empty'')
   \<and> transact (run (constructor 1) (take 2 scenario_submitted))
        (2, 102, RegisterProject [] ''Replanting'' ''Kochi'' ''9.93,76.26'' 4000 Mangrove [] 500)
       = run (constructor 1) (take 2 scenario_submitted)"
proof -
  let ?b1 = "(r_projectBody ''mangrove'')\<lparr>b_area := Some (- 5)\<rparr>"
  let ?b2 = "(r_projectBody ''mangrove'')\<lparr>b_name := Some []\<rparr>"
  have v1: "validateProjectRegistration ?b1 =
      [(''area'', ''Area must be between 0.1 and 100,000 hectares'')]"
    by (simp add: r_eval)
  have v2: "validateProjectRegistration ?b2 =
      [(''name'', ''Project name is required''),
       (''name'', ''Project name must be between 3 and 200 characters'')]"
    by (simp add: r_eval)
  have h1: "(\<exists>a. b_area ?b1 = Some a \<and> a \<le> 0)" by (simp add: r_projectBody_def)
  have h2: "toString (b_name ?b2) = []" by (simp add: toString_def)
  have p1: "post_projects r_empty ''p1'' ''2025-01-01'' ?b1 =
      (r_empty, \<lparr>statusCode = 400, payload = ValidationFailed (validateProjectRegistration ?b1)\<rparr>)"
    using invalid_registration_refused[of ?b1 r_empty "''p1''" "''2025-01-01''"] h1 by blast
  have p2: "post_projects r_empty ''p1'' ''2025-01-01'' ?b2 =
      (r_empty, \<lparr>statusCode = 400, payload = ValidationFailed (validateProjectRegistration ?b2)\<rparr>)"
    using invalid_registration_refused[of ?b2 r_empty "''p1''" "''2025-01-01''"] h2 by blast
  have c1: "s_transact (s_run (s_constructor 1) (take 2 s_scenario))
        (2, 102, S_registerProject ''Mangrove belt'' ''Kochi'' 0 S_Mangrove [] 500)
       = s_run (s_constructor 1) (take 2 s_scenario)"
    using invalid_registration_refused[of _ _ _ _ "''Mangrove belt''" "''Kochi''" 0] by blast
  have c2: "transact (run (constructor 1) (take 2 scenario_submitted))
        (2, 102, RegisterProject [] ''Replanting'' ''Kochi'' ''9.93,76.26'' 4000 Mangrove [] 500)
       = run (constructor 1) (take 2 scenario_submitted)"
    using invalid_registration_refused[of _ _ _ _ "[]" "''Kochi''" 4000] by blast
  have e1: "s_registerProject (s_run (s_constructor 1) (take 2 s_scenario)) 2 102
        ''Mangrove belt'' ''Kochi'' 0 S_Mangrove [] 500
       = Inl (Revert ''Project area must be greater than zero'')"
    by (simp add: s_scenario_def s_eval)
  have e2: "registerProject (run (constructor 1) (take 2 scenario_submitted)) 2 102
        [] ''Replanting'' ''Kochi'' ''9.93,76.26'' 4000 Mangrove [] 500
       = Inl (Revert ''Project name cannot be empty'')"
    by (simp add: scenario_submitted_def eval)
  show ?thesis using p1 p2 c1 c2 e1 e2 by (simp only: v1 v2 simp_thms)
qed

















end
